theory Spec2Isabelle
  imports Complex_Main "HOL-Library.AList"
begin

section \<open>Chunked upload endpoints of backend_chunked_endpoints.py\<close>

text \<open>
  The module keeps two pieces of state: the dictionary \<open>upload_sessions\<close> and the files
  below \<open>temp_chunks\<close> and \<open>static/uploads\<close>. Every endpoint is modelled as a function
  from the state before the call to a pair of its outcome (the exception raised, or the
  value returned) and the state after the call, so that what an endpoint has already
  changed when it raises stays visible.

  What the endpoints draw from their environment is an argument of the model: the
  identifier that \<open>uuid.uuid4()\<close> returns, and each reading of \<open>datetime.utcnow()\<close>.

  The file system is a map from paths to the bytes of the files, and a set of
  directories. Paths are pathlib's on a POSIX system and are compared part by part:
  \<open>..\<close> and links are not resolved, nor is a relative path resolved against the
  working directory, so two paths are the same file only when they have the same parts. Reading or unlinking a file that does not exist raises
  \<open>FileNotFoundError\<close>; making a directory and opening the final file raise as the
  system calls do when a part of the path is missing, is a file or is a directory. What
  is not modelled are permissions, a full disk, and names that the file system refuses
  for their length.
\<close>

subsection \<open>Data\<close>

text \<open>Python \<open>bytes\<close>: a list of 8-bit characters.\<close>

type_synonym bytes = string

text \<open>A reading of the clock; \<open>isoformat()\<close> prints it without loss.\<close>

type_synonym timestamp = nat

text \<open>
  A \<open>pathlib\<close> path: whether it is absolute, and its parts below the root or below the
  working directory.
\<close>

datatype pure_path = PurePath (is_absolute: bool) (parts: "string list")

text \<open>
  The files. \<open>Chunk_file u i\<close> is \<open>temp_chunks/{u}_chunk_{i}\<close>, kept as the identifier
  and the index that its name is formatted from: the identifier is a \<open>uuid4\<close>, so the
  name is one part, in the directory that the module makes when it is loaded.
  \<open>Upload_file p\<close> is the file at the path \<open>p\<close>.
\<close>

datatype path = Chunk_file string int | Upload_file pure_path

text \<open>
  Exceptions. The \<open>detail\<close> of an \<open>HTTPException\<close> is one of the module's messages,
  kept with the values its f-string prints; the three catch-all handlers print the
  exception they caught into the detail of a new one. "Missing chunks" prints
  \<open>list(missing_chunks)\<close>, the elements of a set in the order in which Python happens
  to iterate over it: the detail keeps the set.
\<close>

datatype exn =
    HTTPException nat detail
  | ZeroDivisionError
  | FileNotFoundError path
  | KeyError int
  | FileExistsError pure_path
  | NotADirectoryError pure_path
  | IsADirectoryError pure_path
  | ValueError
and detail =
    Invalid_chunk_count int int
  | Upload_session_not_found
  | Invalid_chunk_index int int
  | Missing_chunks "int set"
  | File_size_mismatch int int
  | Failed_to_initialize_upload exn
  | Failed_to_upload_chunk exn
  | Failed_to_complete_upload exn

text \<open>
  The session dictionary of \<open>initialize_chunked_upload\<close>. Its entry \<open>"chunks"\<close> is a
  Python dict from chunk index to the path of the chunk's file: an association list in
  insertion order, read with \<open>map_of\<close> and written with \<open>AList.update\<close>.
\<close>

record session =
  uploadId :: string
  fileName :: string
  totalSize :: int
  chunkSize :: int
  totalChunks :: int
  fileType :: "string option"
  projectId :: "string option"
  folderId :: "string option"
  chunks :: "(int \<times> path) list"
  createdAt :: timestamp
  expiresAt :: timestamp
  status :: string

record state =
  upload_sessions :: "string \<rightharpoonup> session"
  files :: "path \<rightharpoonup> bytes"
  dirs :: "pure_path set"

text \<open>
  The module as loaded: no session, and \<open>temp_chunks\<close> made in an empty working
  directory.
\<close>

definition initial_state :: state where
  "initial_state =
     \<lparr>upload_sessions = Map.empty, files = Map.empty,
      dirs = {PurePath False [''temp_chunks'']}\<rparr>"

record ChunkedUploadInitRequest =
  req_fileName :: string
  req_totalSize :: int
  req_chunkSize :: int
  req_totalChunks :: int
  req_fileType :: "string option"

record ChunkedUploadInitResponse =
  resp_uploadId :: string
  resp_chunkSize :: int
  resp_totalChunks :: int
  resp_expiresAt :: timestamp

subsection \<open>initialize_chunked_upload\<close>

text \<open>
  The body of the \<open>try\<close>. \<open>upload_id\<close> is the value of \<open>uuid.uuid4()\<close>; \<open>now1\<close> and
  \<open>now2\<close> are the two readings of \<open>datetime.utcnow()\<close>, for \<open>createdAt\<close> and for
  \<open>expiresAt\<close>. Python's \<open>//\<close> is floor division, as \<open>div\<close> on \<open>int\<close>, and raises
  on a zero divisor.
\<close>

definition initialize_try ::
  "ChunkedUploadInitRequest \<Rightarrow> string option \<Rightarrow> string option \<Rightarrow> string \<Rightarrow>
   timestamp \<Rightarrow> timestamp \<Rightarrow> state \<Rightarrow> (exn + ChunkedUploadInitResponse) \<times> state" where
  "initialize_try request project_id folder_id upload_id now1 now2 s =
     (if req_chunkSize request = 0 then (Inl ZeroDivisionError, s)
      else
        let expected_chunks =
              (req_totalSize request + req_chunkSize request - 1) div req_chunkSize request
        in
          if req_totalChunks request \<noteq> expected_chunks
          then (Inl (HTTPException 400
                  (Invalid_chunk_count expected_chunks (req_totalChunks request))), s)
          else
            let session =
                  \<lparr>uploadId = upload_id,
                   fileName = req_fileName request,
                   totalSize = req_totalSize request,
                   chunkSize = req_chunkSize request,
                   totalChunks = req_totalChunks request,
                   fileType = req_fileType request,
                   projectId = project_id,
                   folderId = folder_id,
                   chunks = [],
                   createdAt = now1,
                   expiresAt = now2,
                   status = ''initialized''\<rparr>
            in (Inr \<lparr>resp_uploadId = upload_id,
                      resp_chunkSize = req_chunkSize request,
                      resp_totalChunks = req_totalChunks request,
                      resp_expiresAt = expiresAt session\<rparr>,
                s\<lparr>upload_sessions := (upload_sessions s)(upload_id \<mapsto> session)\<rparr>))"

text \<open>
  \<open>except Exception as e\<close> also catches the \<open>HTTPException\<close> raised in the body, and
  raises a 500 whose detail prints it.
\<close>

definition initialize_chunked_upload ::
  "ChunkedUploadInitRequest \<Rightarrow> string option \<Rightarrow> string option \<Rightarrow> string \<Rightarrow>
   timestamp \<Rightarrow> timestamp \<Rightarrow> state \<Rightarrow> (exn + ChunkedUploadInitResponse) \<times> state" where
  "initialize_chunked_upload request project_id folder_id upload_id now1 now2 s =
     (case initialize_try request project_id folder_id upload_id now1 now2 s of
        (Inr r, s') \<Rightarrow> (Inr r, s')
      | (Inl e, s') \<Rightarrow> (Inl (HTTPException 500 (Failed_to_initialize_upload e)), s'))"

text \<open>The project and the folder endpoints pass their path parameter on.\<close>

definition init_project_chunked_upload ::
  "string \<Rightarrow> ChunkedUploadInitRequest \<Rightarrow> string \<Rightarrow> timestamp \<Rightarrow> timestamp \<Rightarrow> state \<Rightarrow>
   (exn + ChunkedUploadInitResponse) \<times> state" where
  "init_project_chunked_upload project_id request =
     initialize_chunked_upload request (Some project_id) None"

definition init_folder_chunked_upload ::
  "string \<Rightarrow> ChunkedUploadInitRequest \<Rightarrow> string \<Rightarrow> timestamp \<Rightarrow> timestamp \<Rightarrow> state \<Rightarrow>
   (exn + ChunkedUploadInitResponse) \<times> state" where
  "init_folder_chunked_upload folder_id request =
     initialize_chunked_upload request None (Some folder_id)"

subsection \<open>upload_chunk\<close>

text \<open>
  The two dictionaries that \<open>upload_chunk\<close> returns: the one for a chunk already
  received has the keys \<open>"success"\<close> and \<open>"message"\<close> only.
\<close>

datatype upload_message = Chunk_already_received int | Chunk_uploaded_successfully int

record upload_chunk_response =
  r_success :: bool
  r_chunkIndex :: "int option"
  r_chunkSize :: "nat option"
  r_message :: upload_message

definition upload_chunk_try ::
  "string \<Rightarrow> int \<Rightarrow> bytes \<Rightarrow> state \<Rightarrow> (exn + upload_chunk_response) \<times> state" where
  "upload_chunk_try upload_id chunk_index chunk s =
     (case upload_sessions s upload_id of
        None \<Rightarrow> (Inl (HTTPException 404 Upload_session_not_found), s)
      | Some session \<Rightarrow>
          if chunk_index < 0 \<or> chunk_index \<ge> totalChunks session
          then (Inl (HTTPException 400
                  (Invalid_chunk_index chunk_index (totalChunks session - 1))), s)
          else if chunk_index \<in> set (map fst (chunks session))
          then (Inr \<lparr>r_success = True, r_chunkIndex = None, r_chunkSize = None,
                      r_message = Chunk_already_received chunk_index\<rparr>, s)
          else
            let chunk_data = chunk;
                chunk_path = Chunk_file upload_id chunk_index;
                fs = (files s)(chunk_path \<mapsto> chunk_data);
                session' = session\<lparr>chunks :=
                             AList.update chunk_index chunk_path (chunks session)\<rparr>
            in (Inr \<lparr>r_success = True, r_chunkIndex = Some chunk_index,
                      r_chunkSize = Some (length chunk_data),
                      r_message = Chunk_uploaded_successfully chunk_index\<rparr>,
                s\<lparr>upload_sessions := (upload_sessions s)(upload_id \<mapsto> session'),
                  files := fs\<rparr>))"

definition upload_chunk ::
  "string \<Rightarrow> int \<Rightarrow> bytes \<Rightarrow> state \<Rightarrow> (exn + upload_chunk_response) \<times> state" where
  "upload_chunk upload_id chunk_index chunk s =
     (case upload_chunk_try upload_id chunk_index chunk s of
        (Inr r, s') \<Rightarrow> (Inr r, s')
      | (Inl e, s') \<Rightarrow> (Inl (HTTPException 500 (Failed_to_upload_chunk e)), s'))"

subsection \<open>complete_chunked_upload\<close>

record ChunkedUploadCompleteRequest =
  creq_uploadId :: string
  creq_fileName :: string
  creq_chunks :: "string list"

datatype complete_message = Uploaded_successfully_via_chunked_upload string

record ChunkedUploadCompleteResponse =
  fileId :: string
  cresp_fileName :: string
  url :: string
  size :: int
  cresp_message :: complete_message

text \<open>\<open>if project_id:\<close> holds for a string that is neither \<open>None\<close> nor empty.\<close>

fun truthy :: "string option \<Rightarrow> bool" where
  "truthy None = False"
| "truthy (Some x) = (x \<noteq> [])"

text \<open>
  \<open>Path(s)\<close>: the string is split at \<open>/\<close>; empty pieces and \<open>.\<close> are dropped, \<open>..\<close>
  is kept; the path is absolute when the string begins with \<open>/\<close>.
\<close>

fun split_slash :: "string \<Rightarrow> string list" where
  "split_slash [] = [[]]"
| "split_slash (c # cs) =
     (if c = CHR ''/'' then [] # split_slash cs
      else (case split_slash cs of [] \<Rightarrow> [[c]] | piece # pieces \<Rightarrow> (c # piece) # pieces))"

definition parse_path :: "string \<Rightarrow> pure_path" where
  "parse_path s =
     PurePath (take 1 s = ''/'') (filter (\<lambda>piece. piece \<noteq> [] \<and> piece \<noteq> ''.'') (split_slash s))"

text \<open>\<open>p / s\<close>: an absolute \<open>s\<close> replaces \<open>p\<close>, any other is appended to it.\<close>

definition joinpath :: "pure_path \<Rightarrow> string \<Rightarrow> pure_path" where
  "joinpath p s =
     (let q = parse_path s
      in if is_absolute q then q else PurePath (is_absolute p) (parts p @ parts q))"

text \<open>\<open>str(p)\<close>.\<close>

fun join_slash :: "string list \<Rightarrow> string" where
  "join_slash [] = []"
| "join_slash [x] = x"
| "join_slash (x # y # zs) = x @ ''/'' @ join_slash (y # zs)"

definition str_path :: "pure_path \<Rightarrow> string" where
  "str_path p =
     (if parts p = [] then (if is_absolute p then ''/'' else ''.'')
      else (if is_absolute p then ''/'' else []) @ join_slash (parts p))"

text \<open>
  \<open>p.relative_to(other)\<close> compares the parts only, and raises \<open>ValueError\<close> unless
  \<open>other\<close> is \<open>p\<close> or lies above it.
\<close>

definition relative_to :: "pure_path \<Rightarrow> pure_path \<Rightarrow> exn + pure_path" where
  "relative_to p other =
     (if is_absolute p = is_absolute other \<and>
         take (length (parts other)) (parts p) = parts other
      then Inr (PurePath False (drop (length (parts other)) (parts p)))
      else Inl ValueError)"

text \<open>
  The paths from the first part of a path down to the path itself: the directories that
  must be there for the path to be reached, and the path last.
\<close>

fun lineage :: "bool \<Rightarrow> string list \<Rightarrow> string list \<Rightarrow> pure_path list" where
  "lineage a stem [] = []"
| "lineage a stem (x # xs) = PurePath a (stem @ [x]) # lineage a (stem @ [x]) xs"

definition ancestry :: "pure_path \<Rightarrow> pure_path list" where
  "ancestry p = lineage (is_absolute p) [] (parts p)"

text \<open>A path with a zero byte is refused before the file system is asked.\<close>

definition embedded_null :: "pure_path \<Rightarrow> bool" where
  "embedded_null p = (CHR 0x00 \<in> set (concat (parts p)))"

text \<open>
  \<open>d.mkdir(parents=True, exist_ok=True)\<close>. Directories that are there are passed over.
  At the first path of the ancestry that is no directory, a file stops the call, with
  \<open>FileExistsError\<close> when it is \<open>d\<close> itself and \<open>NotADirectoryError\<close> when it lies above
  \<open>d\<close>; when nothing is there, that directory and all below it down to \<open>d\<close> are made.
\<close>

definition mkdir_parents ::
  "pure_path \<Rightarrow> (path \<rightharpoonup> bytes) \<Rightarrow> pure_path set \<Rightarrow> exn + pure_path set" where
  "mkdir_parents d fs ds =
     (if embedded_null d then Inl ValueError
      else
        case find (\<lambda>q. q \<notin> ds) (ancestry d) of
          None \<Rightarrow> Inr ds
        | Some q \<Rightarrow>
            if fs (Upload_file q) \<noteq> None
            then Inl (if q = d then FileExistsError d else NotADirectoryError d)
            else Inr (ds \<union> set (ancestry d)))"

text \<open>
  \<open>open(p, "wb")\<close>. Every path above \<open>p\<close> must be a directory: the first that is not
  stops the call, with \<open>NotADirectoryError\<close> when it is a file and \<open>FileNotFoundError\<close>
  when nothing is there. \<open>p\<close> itself must not be a directory. The file is then there
  and empty.
\<close>

definition open_wb ::
  "pure_path \<Rightarrow> (path \<rightharpoonup> bytes) \<Rightarrow> pure_path set \<Rightarrow> exn + (path \<rightharpoonup> bytes)" where
  "open_wb p fs ds =
     (if embedded_null p then Inl ValueError
      else
        case find (\<lambda>q. q \<notin> ds) (butlast (ancestry p)) of
          Some q \<Rightarrow>
            Inl (if fs (Upload_file q) \<noteq> None then NotADirectoryError p
                 else FileNotFoundError (Upload_file p))
        | None \<Rightarrow>
            if parts p = [] \<or> p \<in> ds then Inl (IsADirectoryError p)
            else Inr (fs(Upload_file p \<mapsto> [])))"

text \<open>The directory for the final file, from the session's project or folder.\<close>

definition upload_dir_of :: "session \<Rightarrow> pure_path" where
  "upload_dir_of session =
     (if truthy (projectId session)
      then joinpath (parse_path ''static/uploads'') (the (projectId session))
      else if truthy (folderId session)
      then joinpath (parse_path ''static/uploads/folders'') (the (folderId session))
      else parse_path ''static/uploads/temp'')"

text \<open>\<open>range(n)\<close>, the integers from 0 up to \<open>n - 1\<close>.\<close>

definition range_list :: "int \<Rightarrow> int list" where
  "range_list n = [0..n - 1]"

text \<open>
  The loop over \<open>sorted(session["chunks"].keys())\<close>. \<open>written\<close> is what has gone into
  the final file so far and \<open>total_size\<close> the running count. A chunk file that cannot
  be read ends the loop with the exception, the final file staying as far as written;
  a chunk file that has been read is unlinked, errors ignored.
\<close>

fun assemble ::
  "(int \<times> path) list \<Rightarrow> path \<Rightarrow> int list \<Rightarrow> bytes \<Rightarrow> int \<Rightarrow> (path \<rightharpoonup> bytes) \<Rightarrow>
   (exn + int) \<times> (path \<rightharpoonup> bytes)" where
  "assemble cs final_file_path [] written total_size fs = (Inr total_size, fs)"
| "assemble cs final_file_path (chunk_index # rest) written total_size fs =
     (case map_of cs chunk_index of
        None \<Rightarrow> (Inl (KeyError chunk_index), fs)
      | Some chunk_path \<Rightarrow>
          (case fs chunk_path of
             None \<Rightarrow> (Inl (FileNotFoundError chunk_path), fs)
           | Some chunk_data \<Rightarrow>
               assemble cs final_file_path rest (written @ chunk_data)
                 (total_size + int (length chunk_data))
                 ((fs(final_file_path \<mapsto> written @ chunk_data))(chunk_path := None))))"

text \<open>
  The body of the \<open>try\<close>. \<open>file_id\<close> is the value of the second \<open>uuid.uuid4()\<close>. The
  two sets of indices are compared as sets, and the missing ones are their difference.
  The directory is made, the final file is opened for writing, which empties it, and the
  chunks are written into it; when the sizes agree, the \<open>url\<close> is \<open>static/\<close> followed by
  the path of the final file relative to \<open>static\<close>. Each of the three steps on the path
  may raise, and what was done before it stays done.
\<close>

definition complete_try ::
  "ChunkedUploadCompleteRequest \<Rightarrow> string \<Rightarrow> state \<Rightarrow>
   (exn + ChunkedUploadCompleteResponse) \<times> state" where
  "complete_try request file_id s =
     (let upload_id = creq_uploadId request in
      case upload_sessions s upload_id of
        None \<Rightarrow> (Inl (HTTPException 404 Upload_session_not_found), s)
      | Some session \<Rightarrow>
          let expected_chunks = set (range_list (totalChunks session));
              received_chunks = set (map fst (chunks session))
          in
            if received_chunks \<noteq> expected_chunks
            then (Inl (HTTPException 400
                    (Missing_chunks (expected_chunks - received_chunks))), s)
            else
              let upload_dir = upload_dir_of session in
              case mkdir_parents upload_dir (files s) (dirs s) of
                Inl e \<Rightarrow> (Inl e, s)
              | Inr ds \<Rightarrow>
                  let sanitized_filename = file_id @ ''_'' @ fileName session;
                      final_file_path = joinpath upload_dir sanitized_filename
                  in
                    case open_wb final_file_path (files s) ds of
                      Inl e \<Rightarrow> (Inl e, s\<lparr>dirs := ds\<rparr>)
                    | Inr fs0 \<Rightarrow>
                        (case assemble (chunks session) (Upload_file final_file_path)
                                (sort (map fst (chunks session))) [] 0 fs0
                         of
                           (Inl e, fs) \<Rightarrow> (Inl e, s\<lparr>files := fs, dirs := ds\<rparr>)
                         | (Inr total_size, fs) \<Rightarrow>
                             if total_size \<noteq> totalSize session
                             then
                               (case fs (Upload_file final_file_path) of
                                  None \<Rightarrow>
                                    (Inl (FileNotFoundError (Upload_file final_file_path)),
                                     s\<lparr>files := fs, dirs := ds\<rparr>)
                                | Some _ \<Rightarrow>
                                    (Inl (HTTPException 400
                                       (File_size_mismatch (totalSize session) total_size)),
                                     s\<lparr>files := fs(Upload_file final_file_path := None),
                                       dirs := ds\<rparr>))
                             else
                               (case relative_to final_file_path (parse_path ''static'') of
                                  Inl e \<Rightarrow> (Inl e, s\<lparr>files := fs, dirs := ds\<rparr>)
                                | Inr relative_path \<Rightarrow>
                                    (Inr \<lparr>fileId = file_id,
                                          cresp_fileName = sanitized_filename,
                                          url = ''static/'' @ str_path relative_path,
                                          size = total_size,
                                          cresp_message =
                                            Uploaded_successfully_via_chunked_upload
                                              (fileName session)\<rparr>,
                                     s\<lparr>upload_sessions :=
                                         (upload_sessions s)(upload_id := None),
                                       files := fs, dirs := ds\<rparr>))))"

text \<open>\<open>Path(p).unlink()\<close> in a \<open>try\<close> whose \<open>except\<close> passes, for each path in turn.\<close>

fun unlink_all :: "path list \<Rightarrow> (path \<rightharpoonup> bytes) \<Rightarrow> (path \<rightharpoonup> bytes)" where
  "unlink_all [] fs = fs"
| "unlink_all (chunk_path_str # rest) fs = unlink_all rest (fs(chunk_path_str := None))"

text \<open>The handler's cleanup: the chunk files of the session, then the session.\<close>

definition cleanup_on_error :: "string \<Rightarrow> state \<Rightarrow> state" where
  "cleanup_on_error upload_id s =
     (case upload_sessions s upload_id of
        None \<Rightarrow> s
      | Some session \<Rightarrow>
          s\<lparr>upload_sessions := (upload_sessions s)(upload_id := None),
            files := unlink_all (map snd (chunks session)) (files s)\<rparr>)"

definition complete_chunked_upload ::
  "ChunkedUploadCompleteRequest \<Rightarrow> string \<Rightarrow> state \<Rightarrow>
   (exn + ChunkedUploadCompleteResponse) \<times> state" where
  "complete_chunked_upload request file_id s =
     (case complete_try request file_id s of
        (Inr r, s') \<Rightarrow> (Inr r, s')
      | (Inl e, s') \<Rightarrow>
          (Inl (HTTPException 500 (Failed_to_complete_upload e)),
           cleanup_on_error (creq_uploadId request) s'))"

subsection \<open>get_upload_status and cancel_chunked_upload\<close>

text \<open>
  \<open>progress\<close> is a quotient of Python floats, here of reals; it raises when the session
  has no chunks to expect.
\<close>

record upload_status =
  st_uploadId :: string
  st_fileName :: string
  st_totalChunks :: int
  st_receivedChunks :: nat
  st_missingChunks :: "int list"
  st_status :: string
  st_progress :: real

definition get_upload_status :: "string \<Rightarrow> state \<Rightarrow> exn + upload_status" where
  "get_upload_status upload_id s =
     (case upload_sessions s upload_id of
        None \<Rightarrow> Inl (HTTPException 404 Upload_session_not_found)
      | Some session \<Rightarrow>
          if totalChunks session = 0 then Inl ZeroDivisionError
          else Inr \<lparr>st_uploadId = upload_id,
                    st_fileName = fileName session,
                    st_totalChunks = totalChunks session,
                    st_receivedChunks = length (chunks session),
                    st_missingChunks =
                      filter (\<lambda>i. i \<notin> set (map fst (chunks session)))
                        (range_list (totalChunks session)),
                    st_status = status session,
                    st_progress =
                      real (length (chunks session)) / real_of_int (totalChunks session) * 100\<rparr>)"

datatype cancel_message = Upload_cancelled_successfully string

definition cancel_chunked_upload :: "string \<Rightarrow> state \<Rightarrow> (exn + cancel_message) \<times> state" where
  "cancel_chunked_upload upload_id s =
     (case upload_sessions s upload_id of
        None \<Rightarrow> (Inl (HTTPException 404 Upload_session_not_found), s)
      | Some session \<Rightarrow>
          (Inr (Upload_cancelled_successfully upload_id),
           s\<lparr>upload_sessions := (upload_sessions s)(upload_id := None),
             files := unlink_all (map snd (chunks session)) (files s)\<rparr>))"

subsection \<open>Sequences of calls\<close>

datatype call =
    Init ChunkedUploadInitRequest "string option" "string option" string timestamp timestamp
  | Upload string int bytes
  | Complete ChunkedUploadCompleteRequest string
  | Status string
  | Cancel string

fun step :: "call \<Rightarrow> state \<Rightarrow> state" where
  "step (Init request project_id folder_id upload_id now1 now2) s =
     snd (initialize_chunked_upload request project_id folder_id upload_id now1 now2 s)"
| "step (Upload upload_id chunk_index chunk) s = snd (upload_chunk upload_id chunk_index chunk s)"
| "step (Complete request file_id) s = snd (complete_chunked_upload request file_id s)"
| "step (Status upload_id) s = s"
| "step (Cancel upload_id) s = snd (cancel_chunked_upload upload_id s)"

fun run :: "call list \<Rightarrow> state \<Rightarrow> state" where
  "run [] s = s"
| "run (c # cs) s = run cs (step c s)"

text \<open>The chunks of one upload, sent in the order of the list of indices.\<close>

definition uploads :: "string \<Rightarrow> (int \<Rightarrow> bytes) \<Rightarrow> int list \<Rightarrow> call list" where
  "uploads upload_id payload order = map (\<lambda>i. Upload upload_id i (payload i)) order"

subsection \<open>The specification's chunk count\<close>

text \<open>The spec's chunk count: the ceiling of the quotient of the two sizes.\<close>

definition expectedChunks_spec :: "int \<Rightarrow> int \<Rightarrow> int" where
  "expectedChunks_spec total_size chunk_size = \<lceil>real_of_int total_size / real_of_int chunk_size\<rceil>"

subsection \<open>What holds of every stored session\<close>



subsection \<open>An example upload\<close>

text \<open>
  The request for a file \<open>a.pdf\<close> of six bytes in two chunks of three, and the session
  that it creates under the identifier \<open>u1\<close> when the clock reads 0.
\<close>

abbreviation a_pdf :: ChunkedUploadInitRequest where
  "a_pdf \<equiv> \<lparr>req_fileName = ''a.pdf'', req_totalSize = 6, req_chunkSize = 3,
      req_totalChunks = 2, req_fileType = None\<rparr>"

abbreviation a_pdf_session :: "(int \<times> path) list \<Rightarrow> session" where
  "a_pdf_session cs \<equiv>
     \<lparr>uploadId = ''u1'', fileName = ''a.pdf'', totalSize = 6, chunkSize = 3,
      totalChunks = 2, fileType = None, projectId = None, folderId = None,
      chunks = cs, createdAt = 0, expiresAt = 0, status = ''initialized''\<rparr>"

abbreviation complete_u1 :: ChunkedUploadCompleteRequest where
  "complete_u1 \<equiv> \<lparr>creq_uploadId = ''u1'', creq_fileName = ''a.pdf'', creq_chunks = []\<rparr>"

abbreviation foo_bar :: "int \<Rightarrow> bytes" where
  "foo_bar \<equiv> \<lambda>k. if k = 0 then ''foo'' else ''bar''"

text \<open>A file \<open>b.bin\<close> of nine bytes in three chunks, and its session.\<close>

abbreviation b_bin :: ChunkedUploadInitRequest where
  "b_bin \<equiv> \<lparr>req_fileName = ''b.bin'', req_totalSize = 9, req_chunkSize = 3,
      req_totalChunks = 3, req_fileType = None\<rparr>"

abbreviation b_bin_session :: session where
  "b_bin_session \<equiv>
     \<lparr>uploadId = ''u1'', fileName = ''b.bin'', totalSize = 9, chunkSize = 3,
      totalChunks = 3, fileType = None, projectId = None, folderId = None,
      chunks = [], createdAt = 0, expiresAt = 0, status = ''initialized''\<rparr>"

abbreviation abc_def_ghi :: "int \<Rightarrow> bytes" where
  "abc_def_ghi \<equiv> \<lambda>k. if k = 0 then ''abc'' else if k = 1 then ''def'' else ''ghi''"

text \<open>
  The same upload for a file to be called \<open>sub/a.pdf\<close>, and the directory for the
  final file of an upload that has neither project nor folder.
\<close>

abbreviation sub_a_pdf :: ChunkedUploadInitRequest where
  "sub_a_pdf \<equiv> \<lparr>req_fileName = ''sub/a.pdf'', req_totalSize = 6, req_chunkSize = 3,
      req_totalChunks = 2, req_fileType = None\<rparr>"

abbreviation sub_a_pdf_session :: "(int \<times> path) list \<Rightarrow> session" where
  "sub_a_pdf_session cs \<equiv>
     \<lparr>uploadId = ''u1'', fileName = ''sub/a.pdf'', totalSize = 6, chunkSize = 3,
      totalChunks = 2, fileType = None, projectId = None, folderId = None,
      chunks = cs, createdAt = 0, expiresAt = 0, status = ''initialized''\<rparr>"

abbreviation temp_dir :: pure_path where
  "temp_dir \<equiv> PurePath False [''static'', ''uploads'', ''temp'']"

text \<open>Two chunks with five bytes between them.\<close>

abbreviation fo_bar :: "int \<Rightarrow> bytes" where
  "fo_bar \<equiv> \<lambda>k. if k = 0 then ''fo'' else ''bar''"

text \<open>
  The session of the same upload into the project \<open>/srv/p\<close>; and the session, under
  the identifier \<open>u2\<close>, of the same upload into a project that has the name of a
  final file below \<open>static/uploads\<close>, with the request that completes it.
\<close>

abbreviation srv_session :: "(int \<times> path) list \<Rightarrow> session" where
  "srv_session cs \<equiv>
     \<lparr>uploadId = ''u1'', fileName = ''a.pdf'', totalSize = 6, chunkSize = 3,
      totalChunks = 2, fileType = None, projectId = Some ''/srv/p'', folderId = None,
      chunks = cs, createdAt = 0, expiresAt = 0, status = ''initialized''\<rparr>"

abbreviation in_the_way_session :: "(int \<times> path) list \<Rightarrow> session" where
  "in_the_way_session cs \<equiv>
     \<lparr>uploadId = ''u2'', fileName = ''a.pdf'', totalSize = 6, chunkSize = 3,
      totalChunks = 2, fileType = None, projectId = Some ''temp/f1_a.pdf'', folderId = None,
      chunks = cs, createdAt = 0, expiresAt = 0, status = ''initialized''\<rparr>"

abbreviation complete_u2 :: ChunkedUploadCompleteRequest where
  "complete_u2 \<equiv> \<lparr>creq_uploadId = ''u2'', creq_fileName = ''a.pdf'', creq_chunks = []\<rparr>"

section \<open>Properties\<close>

subsection \<open>Creating a session\<close>

lemma expected_chunks_ceiling:
  assumes "0 < b"
  shows "(a + b - 1) div b = expectedChunks_spec a b"
proof -
  define q where "q = (a + b - 1) div b"
  define r where "r = (a + b - 1) mod b"
  have r: "0 \<le> r" "r < b" using assms by (simp_all add: r_def)
  have "a + b - 1 = b * q + r" by (simp add: q_def r_def)
  then have "- a = b * (- q) + (b - 1 - r)" by (simp add: algebra_simps)
  moreover have "0 \<le> b - 1 - r" "b - 1 - r < b" using r by simp_all
  ultimately have "(- a) div b = - q" by (rule int_div_pos_eq)
  then show ?thesis
    unfolding expectedChunks_spec_def ceiling_divide_eq_div q_def by simp
qed

text \<open>
  C3. With positive sizes, \<open>initialize_chunked_upload\<close> fails exactly when the declared
  chunk count is not the ceiling of total size over chunk size. The failure is the
  handler's 500 around the 400 "Invalid chunk count", which carries the expected and the
  declared count, and it leaves the state as it was; otherwise the session is stored.
\<close>

theorem initialize_invalid_chunk_count:
  assumes "0 < req_totalSize request" and "0 < req_chunkSize request"
  shows "initialize_chunked_upload request project_id folder_id upload_id now1 now2 s =
    (if req_totalChunks request \<noteq>
          expectedChunks_spec (req_totalSize request) (req_chunkSize request)
     then (Inl (HTTPException 500 (Failed_to_initialize_upload (HTTPException 400
             (Invalid_chunk_count
                (expectedChunks_spec (req_totalSize request) (req_chunkSize request))
                (req_totalChunks request))))), s)
     else (Inr \<lparr>resp_uploadId = upload_id,
                resp_chunkSize = req_chunkSize request,
                resp_totalChunks = req_totalChunks request,
                resp_expiresAt = now2\<rparr>,
           s\<lparr>upload_sessions := (upload_sessions s)(upload_id \<mapsto>
               \<lparr>uploadId = upload_id,
                fileName = req_fileName request,
                totalSize = req_totalSize request,
                chunkSize = req_chunkSize request,
                totalChunks = req_totalChunks request,
                fileType = req_fileType request,
                projectId = project_id,
                folderId = folder_id,
                chunks = [],
                createdAt = now1,
                expiresAt = now2,
                status = ''initialized''\<rparr>)\<rparr>))"
  using assms expected_chunks_ceiling [OF assms(2), of "req_totalSize request"]
  by (simp add: initialize_chunked_upload_def initialize_try_def Let_def)

theorem initialize_invalid_chunk_count_witness:
  "(0::int) < 250 \<and> (0::int) < 100 \<and>
   initialize_chunked_upload
     \<lparr>req_fileName = ''a.pdf'', req_totalSize = 250, req_chunkSize = 100,
      req_totalChunks = 2, req_fileType = None\<rparr> None None ''u1'' 0 0 initial_state =
   (Inl (HTTPException 500 (Failed_to_initialize_upload (HTTPException 400
      (Invalid_chunk_count 3 2)))), initial_state)"
  using initialize_invalid_chunk_count [of
     "\<lparr>req_fileName = ''a.pdf'', req_totalSize = 250, req_chunkSize = 100,
      req_totalChunks = 2, req_fileType = None\<rparr>" None None "''u1''" 0 0 initial_state]
  by (simp add: expectedChunks_spec_def)

text \<open>
  C10, as the code has it. \<open>createdAt\<close> and \<open>expiresAt\<close> are two readings of the clock,
  taken one after the other, and no validity window is added to the second: the session
  records the first as \<open>createdAt\<close> and the second as \<open>expiresAt\<close>, and the response
  returns the recorded \<open>expiresAt\<close>. So the expiry is the creation time exactly when
  the clock shows the same value at both readings.
\<close>

theorem initialize_expiresAt:
  assumes "fst (initialize_chunked_upload request project_id folder_id upload_id now1 now2 s) =
             Inr r"
  shows "\<exists>session.
           upload_sessions
             (snd (initialize_chunked_upload request project_id folder_id upload_id now1 now2 s))
             upload_id = Some session \<and>
           createdAt session = now1 \<and> expiresAt session = now2 \<and>
           resp_expiresAt r = expiresAt session \<and>
           (expiresAt session = createdAt session) = (now2 = now1)"
  using assms
  by (auto simp: initialize_chunked_upload_def initialize_try_def Let_def
           split: if_splits)

theorem initialize_expiresAt_witness:
  "fst (initialize_chunked_upload
     \<lparr>req_fileName = ''a.pdf'', req_totalSize = 6, req_chunkSize = 3,
      req_totalChunks = 2, req_fileType = None\<rparr> None None ''u1'' 5 5 initial_state) =
   Inr \<lparr>resp_uploadId = ''u1'', resp_chunkSize = 3, resp_totalChunks = 2,
         resp_expiresAt = 5\<rparr> \<and>
   (\<exists>session.
       upload_sessions
         (snd (initialize_chunked_upload
            \<lparr>req_fileName = ''a.pdf'', req_totalSize = 6, req_chunkSize = 3,
             req_totalChunks = 2, req_fileType = None\<rparr> None None ''u1'' 5 5 initial_state))
         ''u1'' = Some session \<and>
       createdAt session = 5 \<and> expiresAt session = 5 \<and>
       resp_expiresAt \<lparr>resp_uploadId = ''u1'', resp_chunkSize = 3, resp_totalChunks = 2,
         resp_expiresAt = 5\<rparr> = expiresAt session \<and>
       (expiresAt session = createdAt session) = ((5::nat) = 5))"
proof -
  have h: "fst (initialize_chunked_upload
     \<lparr>req_fileName = ''a.pdf'', req_totalSize = 6, req_chunkSize = 3,
      req_totalChunks = 2, req_fileType = None\<rparr> None None ''u1'' 5 5 initial_state) =
   Inr \<lparr>resp_uploadId = ''u1'', resp_chunkSize = 3, resp_totalChunks = 2,
         resp_expiresAt = 5\<rparr>"
    by (simp add: initialize_chunked_upload_def initialize_try_def Let_def)
  show ?thesis by (rule conjI [OF h initialize_expiresAt [OF h]])
qed

text \<open>
  The clock may move between the two readings: at 0 and then 1, the expiry recorded and
  returned is 1, later than the creation time 0.
\<close>

theorem initialize_expiresAt_counterexample:
  "fst (initialize_chunked_upload
     \<lparr>req_fileName = ''a.pdf'', req_totalSize = 6, req_chunkSize = 3,
      req_totalChunks = 2, req_fileType = None\<rparr> None None ''u1'' 0 1 initial_state) =
     Inr \<lparr>resp_uploadId = ''u1'', resp_chunkSize = 3, resp_totalChunks = 2,
          resp_expiresAt = 1\<rparr> \<and>
   map_option createdAt (upload_sessions (snd (initialize_chunked_upload
     \<lparr>req_fileName = ''a.pdf'', req_totalSize = 6, req_chunkSize = 3,
      req_totalChunks = 2, req_fileType = None\<rparr> None None ''u1'' 0 1 initial_state))
     ''u1'') = Some 0 \<and>
   map_option expiresAt (upload_sessions (snd (initialize_chunked_upload
     \<lparr>req_fileName = ''a.pdf'', req_totalSize = 6, req_chunkSize = 3,
      req_totalChunks = 2, req_fileType = None\<rparr> None None ''u1'' 0 1 initial_state))
     ''u1'') = Some 1 \<and>
   map_option expiresAt (upload_sessions (snd (initialize_chunked_upload
     \<lparr>req_fileName = ''a.pdf'', req_totalSize = 6, req_chunkSize = 3,
      req_totalChunks = 2, req_fileType = None\<rparr> None None ''u1'' 0 1 initial_state))
     ''u1'') \<noteq>
   map_option createdAt (upload_sessions (snd (initialize_chunked_upload
     \<lparr>req_fileName = ''a.pdf'', req_totalSize = 6, req_chunkSize = 3,
      req_totalChunks = 2, req_fileType = None\<rparr> None None ''u1'' 0 1 initial_state))
     ''u1'')"
  by (simp add: initialize_chunked_upload_def initialize_try_def Let_def)

lemmas endpoint_defs =
  initialize_chunked_upload_def initialize_try_def upload_chunk_def upload_chunk_try_def
  initial_state_def Let_def

subsection \<open>Receiving a chunk\<close>



lemma upload_chunk_already_received:
  assumes "upload_sessions s upload_id = Some session"
    and "0 \<le> chunk_index" and "chunk_index < totalChunks session"
    and "chunk_index \<in> fst ` set (chunks session)"
  shows "upload_chunk upload_id chunk_index chunk s =
    (Inr \<lparr>r_success = True, r_chunkIndex = None, r_chunkSize = None,
          r_message = Chunk_already_received chunk_index\<rparr>, s)"
  using assms by (simp add: upload_chunk_def upload_chunk_try_def)

lemma upload_chunk_first_time:
  assumes "upload_sessions s upload_id = Some session"
    and "0 \<le> chunk_index" and "chunk_index < totalChunks session"
    and "chunk_index \<notin> fst ` set (chunks session)"
  shows "upload_chunk upload_id chunk_index chunk s =
    (Inr \<lparr>r_success = True, r_chunkIndex = Some chunk_index,
          r_chunkSize = Some (length chunk),
          r_message = Chunk_uploaded_successfully chunk_index\<rparr>,
     s\<lparr>upload_sessions := (upload_sessions s)(upload_id \<mapsto>
          session\<lparr>chunks :=
            AList.update chunk_index (Chunk_file upload_id chunk_index) (chunks session)\<rparr>),
       files := (files s)(Chunk_file upload_id chunk_index \<mapsto> chunk)\<rparr>)"
  using assms by (simp add: upload_chunk_def upload_chunk_try_def Let_def)

lemma count_key_distinct:
  assumes "distinct (map fst al)" and "k \<in> fst ` set al"
  shows "length (filter (\<lambda>e. fst e = k) al) = 1"
  using assms
proof (induction al)
  case Nil
  then show ?case by simp
next
  case (Cons e al)
  show ?case
  proof (cases "fst e = k")
    case True
    with Cons.prems have "k \<notin> fst ` set al" by auto
    then have "filter (\<lambda>e. fst e = k) al = []" by (auto simp: filter_empty_conv)
    with True show ?thesis by simp
  next
    case False
    with Cons show ?thesis by auto
  qed
qed

text \<open>
  C4. Sending a chunk again, for a valid index that the session has already recorded,
  returns success and leaves the whole state as it was: no file is written and the
  session's dictionary of chunks, whose keys are unique, keeps its one entry for the index.
\<close>

theorem upload_chunk_idempotent:
  assumes "upload_sessions s upload_id = Some session"
    and "0 \<le> chunk_index" and "chunk_index < totalChunks session"
    and "chunk_index \<in> fst ` set (chunks session)"
    and "distinct (map fst (chunks session))"
  shows "upload_chunk upload_id chunk_index chunk s =
           (Inr \<lparr>r_success = True, r_chunkIndex = None, r_chunkSize = None,
                 r_message = Chunk_already_received chunk_index\<rparr>, s) \<and>
         map_option (\<lambda>x. length (filter (\<lambda>e. fst e = chunk_index) (chunks x)))
           (upload_sessions (snd (upload_chunk upload_id chunk_index chunk s)) upload_id) =
           Some 1 \<and>
         map_option (\<lambda>x. length (chunks x))
           (upload_sessions (snd (upload_chunk upload_id chunk_index chunk s)) upload_id) =
           Some (length (chunks session)) \<and>
         files (snd (upload_chunk upload_id chunk_index chunk s)) = files s"
  using assms count_key_distinct [OF assms(5,4)]
  by (simp add: upload_chunk_already_received)

theorem upload_chunk_idempotent_witness:
  "upload_sessions (run [Init a_pdf None None ''u1'' 0 0, Upload ''u1'' 0 ''foo''] initial_state)
     ''u1'' = Some (a_pdf_session [(0, Chunk_file ''u1'' 0)]) \<and>
   upload_chunk ''u1'' 0 ''xyz''
     (run [Init a_pdf None None ''u1'' 0 0, Upload ''u1'' 0 ''foo''] initial_state) =
     (Inr \<lparr>r_success = True, r_chunkIndex = None, r_chunkSize = None,
           r_message = Chunk_already_received 0\<rparr>,
      run [Init a_pdf None None ''u1'' 0 0, Upload ''u1'' 0 ''foo''] initial_state) \<and>
   files (snd (upload_chunk ''u1'' 0 ''xyz''
     (run [Init a_pdf None None ''u1'' 0 0, Upload ''u1'' 0 ''foo''] initial_state)))
     (Chunk_file ''u1'' 0) = Some ''foo''"
proof -
  let ?s = "run [Init a_pdf None None ''u1'' 0 0, Upload ''u1'' 0 ''foo''] initial_state"
  have a: "upload_sessions ?s ''u1'' = Some (a_pdf_session [(0, Chunk_file ''u1'' 0)])"
    by (simp add: endpoint_defs)
  have b: "(0::int) \<le> 0" by simp
  have c: "0 < totalChunks (a_pdf_session [(0, Chunk_file ''u1'' 0)])" by simp
  have d: "0 \<in> fst ` set (chunks (a_pdf_session [(0, Chunk_file ''u1'' 0)]))" by simp
  have e: "distinct (map fst (chunks (a_pdf_session [(0, Chunk_file ''u1'' 0)])))" by simp
  have f: "files ?s (Chunk_file ''u1'' 0) = Some ''foo''"
    by (simp add: endpoint_defs)
  from upload_chunk_idempotent [OF a b c d e, of "''xyz''"] a f show ?thesis
    by metis
qed

text \<open>
  C9, as the code has it. A successful call for an index not yet recorded returns the
  index and the number of bytes of the chunk; a successful call for an index already
  recorded returns \<open>success\<close> and a message only, with neither index nor size.
\<close>

theorem upload_chunk_result:
  assumes "fst (upload_chunk upload_id chunk_index chunk s) = Inr r"
  shows "r_success r \<and>
         (\<exists>session. upload_sessions s upload_id = Some session \<and>
            (if chunk_index \<in> fst ` set (chunks session)
             then r_chunkIndex r = None \<and> r_chunkSize r = None \<and>
                  r_message r = Chunk_already_received chunk_index
             else r_chunkIndex r = Some chunk_index \<and>
                  r_chunkSize r = Some (length chunk) \<and>
                  r_message r = Chunk_uploaded_successfully chunk_index))"
  using assms
  by (auto simp: upload_chunk_def upload_chunk_try_def Let_def
           split: option.splits if_splits)

theorem upload_chunk_result_witness:
  "fst (upload_chunk ''u1'' 0 ''foo'' (run [Init a_pdf None None ''u1'' 0 0] initial_state)) =
     Inr \<lparr>r_success = True, r_chunkIndex = Some 0, r_chunkSize = Some 3,
          r_message = Chunk_uploaded_successfully 0\<rparr> \<and>
   upload_sessions (run [Init a_pdf None None ''u1'' 0 0] initial_state) ''u1'' =
     Some (a_pdf_session []) \<and>
   r_success \<lparr>r_success = True, r_chunkIndex = Some 0, r_chunkSize = Some 3,
          r_message = Chunk_uploaded_successfully 0\<rparr> \<and>
   r_chunkIndex \<lparr>r_success = True, r_chunkIndex = Some 0, r_chunkSize = Some 3,
          r_message = Chunk_uploaded_successfully 0\<rparr> = Some 0 \<and>
   r_chunkSize \<lparr>r_success = True, r_chunkIndex = Some 0, r_chunkSize = Some 3,
          r_message = Chunk_uploaded_successfully 0\<rparr> = Some (length ''foo'')"
proof -
  let ?s = "run [Init a_pdf None None ''u1'' 0 0] initial_state"
  let ?r = "\<lparr>r_success = True, r_chunkIndex = Some 0, r_chunkSize = Some 3,
          r_message = Chunk_uploaded_successfully 0\<rparr>"
  have a: "fst (upload_chunk ''u1'' 0 ''foo'' ?s) = Inr ?r"
    by (simp add: endpoint_defs)
  have b: "upload_sessions ?s ''u1'' = Some (a_pdf_session [])"
    by (simp add: endpoint_defs)
  from upload_chunk_result [OF a] b
  have "r_success ?r \<and> r_chunkIndex ?r = Some 0 \<and> r_chunkSize ?r = Some (length ''foo'')"
    by auto
  with a b show ?thesis by blast
qed

text \<open>
  Sending chunk 0 of a session a second time succeeds with a result that holds neither
  the chunk index nor a size.
\<close>

theorem upload_chunk_result_counterexample:
  "fst (upload_chunk ''u1'' 0 ''foo''
     (run [Init a_pdf None None ''u1'' 0 0, Upload ''u1'' 0 ''foo''] initial_state)) =
     Inr \<lparr>r_success = True, r_chunkIndex = None, r_chunkSize = None,
          r_message = Chunk_already_received 0\<rparr>"
  by (simp add: endpoint_defs)

subsection \<open>The recorded indices\<close>

lemma set_range_list: "set (range_list n) = {0..<n}"
  by (auto simp: range_list_def)

lemma unlink_all_apply:
  "unlink_all ps fs p = (if p \<in> set ps then None else fs p)"
  by (induction ps arbitrary: fs) auto














subsection \<open>Cancelling\<close>

text \<open>
  C7. Cancelling an existing session returns its message, unlinks every chunk file that
  the session has recorded and removes the session, so that asking for the status of
  the same identifier afterwards raises the 404 "Upload session not found".
\<close>

theorem cancel_removes_session_and_chunks:
  assumes "upload_sessions s upload_id = Some session"
  shows "fst (cancel_chunked_upload upload_id s) =
           Inr (Upload_cancelled_successfully upload_id) \<and>
         upload_sessions (snd (cancel_chunked_upload upload_id s)) upload_id = None \<and>
         (\<forall>p \<in> set (map snd (chunks session)).
            files (snd (cancel_chunked_upload upload_id s)) p = None) \<and>
         get_upload_status upload_id (snd (cancel_chunked_upload upload_id s)) =
           Inl (HTTPException 404 Upload_session_not_found)"
  using assms
  by (simp add: cancel_chunked_upload_def get_upload_status_def unlink_all_apply)

theorem cancel_removes_session_and_chunks_witness:
  "upload_sessions
     (run [Init a_pdf None None ''u1'' 0 0, Upload ''u1'' 0 ''foo''] initial_state) ''u1'' =
     Some (a_pdf_session [(0, Chunk_file ''u1'' 0)]) \<and>
   files (run [Init a_pdf None None ''u1'' 0 0, Upload ''u1'' 0 ''foo''] initial_state)
     (Chunk_file ''u1'' 0) = Some ''foo'' \<and>
   fst (cancel_chunked_upload ''u1''
     (run [Init a_pdf None None ''u1'' 0 0, Upload ''u1'' 0 ''foo''] initial_state)) =
     Inr (Upload_cancelled_successfully ''u1'') \<and>
   upload_sessions (snd (cancel_chunked_upload ''u1''
     (run [Init a_pdf None None ''u1'' 0 0, Upload ''u1'' 0 ''foo''] initial_state)))
     ''u1'' = None \<and>
   files (snd (cancel_chunked_upload ''u1''
     (run [Init a_pdf None None ''u1'' 0 0, Upload ''u1'' 0 ''foo''] initial_state)))
     (Chunk_file ''u1'' 0) = None \<and>
   get_upload_status ''u1'' (snd (cancel_chunked_upload ''u1''
     (run [Init a_pdf None None ''u1'' 0 0, Upload ''u1'' 0 ''foo''] initial_state))) =
     Inl (HTTPException 404 Upload_session_not_found)"
proof -
  let ?s = "run [Init a_pdf None None ''u1'' 0 0, Upload ''u1'' 0 ''foo''] initial_state"
  have a: "upload_sessions ?s ''u1'' = Some (a_pdf_session [(0, Chunk_file ''u1'' 0)])"
    by (simp add: endpoint_defs)
  have b: "files ?s (Chunk_file ''u1'' 0) = Some ''foo''"
    by (simp add: endpoint_defs)
  have c: "Chunk_file ''u1'' 0 \<in> set (map snd (chunks (a_pdf_session [(0, Chunk_file ''u1'' 0)])))"
    by simp
  from cancel_removes_session_and_chunks [OF a] a b c show ?thesis by blast
qed

subsection \<open>Completing an upload\<close>

lemmas path_defs =
  parse_path_def joinpath_def ancestry_def embedded_null_def mkdir_parents_def open_wb_def
  relative_to_def str_path_def upload_dir_of_def

lemma update_fresh:
  assumes "k \<notin> fst ` set al"
  shows "AList.update k v al = al @ [(k, v)]"
  using assms by (induction al) auto

lemma assemble_stored:
  assumes "\<forall>k \<in> set ks. map_of cs k = Some (Chunk_file upload_id k) \<and>
             fs (Chunk_file upload_id k) = Some (payload k)"
    and "distinct ks"
    and "fs (Upload_file q) = Some written"
  shows "assemble cs (Upload_file q) ks written total_size fs =
    (Inr (total_size + (\<Sum>k\<leftarrow>ks. int (length (payload k)))),
     (\<lambda>p. if p = Upload_file q then Some (written @ concat (map payload ks))
          else if p \<in> Chunk_file upload_id ` set ks then None
          else fs p))"
  using assms
proof (induction ks arbitrary: written total_size fs)
  case Nil
  then show ?case by (auto simp: fun_eq_iff)
next
  case (Cons k ks)
  let ?fs = "(fs(Upload_file q \<mapsto> written @ payload k))(Chunk_file upload_id k := None)"
  have 1: "\<forall>j \<in> set ks. map_of cs j = Some (Chunk_file upload_id j) \<and>
             ?fs (Chunk_file upload_id j) = Some (payload j)"
    using Cons.prems(1,2) by auto
  have 2: "distinct ks" using Cons.prems(2) by simp
  have 3: "?fs (Upload_file q) = Some (written @ payload k)" by simp
  have step: "assemble cs (Upload_file q) (k # ks) written total_size fs =
      assemble cs (Upload_file q) ks (written @ payload k)
        (total_size + int (length (payload k))) ?fs"
    using Cons.prems(1) by simp
  have "(\<Sum>j\<leftarrow>k # ks. int (length (payload j))) =
          int (length (payload k)) + (\<Sum>j\<leftarrow>ks. int (length (payload j)))"
    by simp
  moreover have "(\<lambda>p. if p = Upload_file q
              then Some ((written @ payload k) @ concat (map payload ks))
              else if p \<in> Chunk_file upload_id ` set ks then None else ?fs p) =
        (\<lambda>p. if p = Upload_file q then Some (written @ concat (map payload (k # ks)))
              else if p \<in> Chunk_file upload_id ` set (k # ks) then None else fs p)"
    by (rule ext) simp
  ultimately show ?case
    unfolding step Cons.IH [OF 1 2 3] by (simp only: add.assoc)
qed

lemma sort_keys_range:
  assumes "distinct ks" and "set ks = {0..<n}"
  shows "sort ks = range_list n"
  unfolding range_list_def
proof (rule sorted_distinct_set_unique)
  show "sorted (sort ks)" by (rule sorted_sort)
  show "distinct (sort ks)" using assms(1) by (simp only: distinct_sort)
  show "sorted [0..n - 1]" by (rule sorted_upto)
  show "distinct [0..n - 1]" by (rule distinct_upto)
  have "{0..<n} = {0..n - 1}" by auto
  then show "set (sort ks) = set [0..n - 1]"
    using assms(2) by (simp only: set_sort set_upto)
qed

lemma open_wb_opened:
  assumes "open_wb p fs ds = Inr fs0"
  shows "fs0 = fs(Upload_file p \<mapsto> [])"
  using assms by (auto simp: open_wb_def split: if_splits option.splits)

text \<open>
  A session all of whose chunks are stored: when the final file can be opened, it is
  filled in ascending order of the indices.
\<close>

lemma complete_try_stored:
  assumes sess: "upload_sessions s upload_id = Some session"
    and req: "creq_uploadId request = upload_id"
    and dist: "distinct (map fst (chunks session))"
    and keys: "fst ` set (chunks session) = {0..<totalChunks session}"
    and stored: "\<forall>k \<in> {0..<totalChunks session}.
                   map_of (chunks session) k = Some (Chunk_file upload_id k) \<and>
                   files s (Chunk_file upload_id k) = Some (payload k)"
  shows "complete_try request file_id s =
    (case mkdir_parents (upload_dir_of session) (files s) (dirs s) of
       Inl e \<Rightarrow> (Inl e, s)
     | Inr ds \<Rightarrow>
         (case open_wb (joinpath (upload_dir_of session) (file_id @ ''_'' @ fileName session))
                 (files s) ds of
            Inl e \<Rightarrow> (Inl e, s\<lparr>dirs := ds\<rparr>)
          | Inr fs0 \<Rightarrow>
              if (\<Sum>k\<leftarrow>range_list (totalChunks session). int (length (payload k))) \<noteq>
                   totalSize session
              then
                (Inl (HTTPException 400 (File_size_mismatch (totalSize session)
                   (\<Sum>k\<leftarrow>range_list (totalChunks session). int (length (payload k))))),
                 s\<lparr>files := (\<lambda>p. if p = Upload_file (joinpath (upload_dir_of session)
                                             (file_id @ ''_'' @ fileName session))
                           then None
                           else if p \<in> Chunk_file upload_id ` {0..<totalChunks session}
                           then None else files s p),
                   dirs := ds\<rparr>)
              else
                (case relative_to (joinpath (upload_dir_of session)
                                     (file_id @ ''_'' @ fileName session))
                        (parse_path ''static'') of
                   Inl e \<Rightarrow>
                     (Inl e,
                      s\<lparr>files := (\<lambda>p. if p = Upload_file (joinpath (upload_dir_of session)
                                                  (file_id @ ''_'' @ fileName session))
                           then Some (concat (map payload (range_list (totalChunks session))))
                           else if p \<in> Chunk_file upload_id ` {0..<totalChunks session}
                           then None else files s p),
                        dirs := ds\<rparr>)
                 | Inr relative_path \<Rightarrow>
                     (Inr \<lparr>fileId = file_id,
                           cresp_fileName = file_id @ ''_'' @ fileName session,
                           url = ''static/'' @ str_path relative_path,
                           size = totalSize session,
                           cresp_message =
                             Uploaded_successfully_via_chunked_upload (fileName session)\<rparr>,
                      s\<lparr>upload_sessions := (upload_sessions s)(upload_id := None),
                        files := (\<lambda>p. if p = Upload_file (joinpath (upload_dir_of session)
                                                  (file_id @ ''_'' @ fileName session))
                           then Some (concat (map payload (range_list (totalChunks session))))
                           else if p \<in> Chunk_file upload_id ` {0..<totalChunks session}
                           then None else files s p),
                        dirs := ds\<rparr>))))"
proof -
  define n where "n = totalChunks session"
  define name where "name = file_id @ ''_'' @ fileName session"
  define final where "final = joinpath (upload_dir_of session) name"
  define total where "total = (\<Sum>k\<leftarrow>range_list n. int (length (payload k)))"
  define fs1 where
    "fs1 = (\<lambda>p. if p = Upload_file final then Some (concat (map payload (range_list n)))
               else if p \<in> Chunk_file upload_id ` {0..<n} then None
               else files s p)"
  define fs2 where
    "fs2 = (\<lambda>p. if p = Upload_file final then None
               else if p \<in> Chunk_file upload_id ` {0..<n} then None
               else files s p)"
  have sorted_keys: "sort (map fst (chunks session)) = range_list n"
    unfolding n_def using dist keys by (intro sort_keys_range) simp_all
  have received: "(set (map fst (chunks session)) \<noteq> set (range_list n)) = False"
    using keys by (simp add: set_range_list n_def)
  have a2: "distinct (range_list n)" by (simp add: range_list_def)
  have fs1_final: "fs1 (Upload_file final) = Some (concat (map payload (range_list n)))"
    by (simp add: fs1_def)
  have fs12: "fs1(Upload_file final := None) = fs2"
    unfolding fs1_def fs2_def by (rule ext) simp
  have asm: "assemble (chunks session) (Upload_file final) (range_list n) [] 0 fs0 =
               (Inr total, fs1)"
    if opened: "open_wb final (files s) ds = Inr fs0" for ds fs0
  proof -
    have fs0: "fs0 = (files s)(Upload_file final \<mapsto> [])"
      using opened by (rule open_wb_opened)
    have a1: "\<forall>k \<in> set (range_list n).
                map_of (chunks session) k = Some (Chunk_file upload_id k) \<and>
                fs0 (Chunk_file upload_id k) = Some (payload k)"
      using stored by (simp add: set_range_list n_def fs0)
    have a3: "fs0 (Upload_file final) = Some []" by (simp add: fs0)
    have "assemble (chunks session) (Upload_file final) (range_list n) [] 0 fs0 =
      (Inr (0 + (\<Sum>k\<leftarrow>range_list n. int (length (payload k)))),
       (\<lambda>p. if p = Upload_file final then Some ([] @ concat (map payload (range_list n)))
            else if p \<in> Chunk_file upload_id ` set (range_list n) then None
            else fs0 p))"
      using a1 a2 a3 by (rule assemble_stored)
    moreover have "(\<lambda>p. if p = Upload_file final
            then Some ([] @ concat (map payload (range_list n)))
            else if p \<in> Chunk_file upload_id ` set (range_list n) then None
            else fs0 p) = fs1"
      unfolding fs1_def by (rule ext) (simp add: set_range_list fs0)
    ultimately show ?thesis by (simp add: total_def)
  qed
  have "complete_try request file_id s =
    (case mkdir_parents (upload_dir_of session) (files s) (dirs s) of
       Inl e \<Rightarrow> (Inl e, s)
     | Inr ds \<Rightarrow>
         (case open_wb final (files s) ds of
            Inl e \<Rightarrow> (Inl e, s\<lparr>dirs := ds\<rparr>)
          | Inr fs0 \<Rightarrow>
              if total \<noteq> totalSize session
              then (Inl (HTTPException 400 (File_size_mismatch (totalSize session) total)),
                    s\<lparr>files := fs2, dirs := ds\<rparr>)
              else
                (case relative_to final (parse_path ''static'') of
                   Inl e \<Rightarrow> (Inl e, s\<lparr>files := fs1, dirs := ds\<rparr>)
                 | Inr relative_path \<Rightarrow>
                     (Inr \<lparr>fileId = file_id,
                           cresp_fileName = name,
                           url = ''static/'' @ str_path relative_path,
                           size = totalSize session,
                           cresp_message =
                             Uploaded_successfully_via_chunked_upload (fileName session)\<rparr>,
                      s\<lparr>upload_sessions := (upload_sessions s)(upload_id := None),
                        files := fs1, dirs := ds\<rparr>))))"
  proof (cases "mkdir_parents (upload_dir_of session) (files s) (dirs s)")
    case (Inl e)
    then show ?thesis
      unfolding complete_try_def Let_def req sess option.case
      unfolding n_def [symmetric]
      by (simp only: received if_False sum.case)
  next
    case mk: (Inr ds)
    show ?thesis
    proof (cases "open_wb final (files s) ds")
      case (Inl e)
      then show ?thesis
        unfolding complete_try_def Let_def req sess option.case
        unfolding name_def [symmetric]
        unfolding final_def [symmetric] n_def [symmetric]
        by (simp only: received if_False mk sum.case)
    next
      case op: (Inr fs0)
      show ?thesis
        unfolding complete_try_def Let_def req sess option.case
        unfolding name_def [symmetric]
        unfolding final_def [symmetric] n_def [symmetric]
        by (simp only: received if_False mk op sum.case sorted_keys asm [OF op] prod.case
              fs1_final fs12 option.case split: if_split sum.split)
           simp
    qed
  qed
  then show ?thesis
    unfolding total_def fs1_def fs2_def final_def name_def n_def .
qed

lemma recorded_paths:
  assumes dist: "distinct (map fst (chunks session))"
    and keys: "fst ` set (chunks session) = {0..<totalChunks session}"
    and stored: "\<forall>k \<in> {0..<totalChunks session}.
                   map_of (chunks session) k = Some (Chunk_file upload_id k) \<and>
                   files s (Chunk_file upload_id k) = Some (payload k)"
  shows "set (map snd (chunks session)) = Chunk_file upload_id ` {0..<totalChunks session}"
proof (rule set_eqI)
  fix p
  show "p \<in> set (map snd (chunks session)) \<longleftrightarrow>
        p \<in> Chunk_file upload_id ` {0..<totalChunks session}"
  proof
    assume "p \<in> set (map snd (chunks session))"
    then obtain k where kp: "(k, p) \<in> set (chunks session)" by auto
    then have "k \<in> fst ` set (chunks session)" by force
    with keys have k: "k \<in> {0..<totalChunks session}" by simp
    from kp dist have "map_of (chunks session) k = Some p" by simp
    with stored k have "p = Chunk_file upload_id k" by simp
    with k show "p \<in> Chunk_file upload_id ` {0..<totalChunks session}" by blast
  next
    assume "p \<in> Chunk_file upload_id ` {0..<totalChunks session}"
    then obtain k where k: "k \<in> {0..<totalChunks session}" and p: "p = Chunk_file upload_id k"
      by blast
    with stored have "map_of (chunks session) k = Some p" by simp
    then have "(k, p) \<in> set (chunks session)" by (rule map_of_SomeD)
    then show "p \<in> set (map snd (chunks session))" by force
  qed
qed

text \<open>The handler's cleanup, for such a session and whatever the files and directories.\<close>

lemma cleanup_stored:
  assumes sess: "upload_sessions s upload_id = Some session"
    and paths: "set (map snd (chunks session)) = Chunk_file upload_id ` {0..<totalChunks session}"
  shows "cleanup_on_error upload_id (s\<lparr>files := fs, dirs := ds\<rparr>) =
    \<lparr>upload_sessions = (upload_sessions s)(upload_id := None),
     files = (\<lambda>p. if p \<in> Chunk_file upload_id ` {0..<totalChunks session} then None else fs p),
     dirs = ds\<rparr>"
proof -
  have "unlink_all (map snd (chunks session)) fs =
          (\<lambda>p. if p \<in> Chunk_file upload_id ` {0..<totalChunks session} then None else fs p)"
    by (rule ext) (simp add: unlink_all_apply paths del: set_map)
  then show ?thesis
    by (simp add: cleanup_on_error_def sess)
qed

lemma complete_stored:
  assumes sess: "upload_sessions s upload_id = Some session"
    and req: "creq_uploadId request = upload_id"
    and dist: "distinct (map fst (chunks session))"
    and keys: "fst ` set (chunks session) = {0..<totalChunks session}"
    and stored: "\<forall>k \<in> {0..<totalChunks session}.
                   map_of (chunks session) k = Some (Chunk_file upload_id k) \<and>
                   files s (Chunk_file upload_id k) = Some (payload k)"
  shows "complete_chunked_upload request file_id s =
    (case mkdir_parents (upload_dir_of session) (files s) (dirs s) of
       Inl e \<Rightarrow>
         (Inl (HTTPException 500 (Failed_to_complete_upload e)),
          \<lparr>upload_sessions = (upload_sessions s)(upload_id := None),
           files = (\<lambda>p. if p \<in> Chunk_file upload_id ` {0..<totalChunks session} then None
                        else files s p),
           dirs = dirs s\<rparr>)
     | Inr ds \<Rightarrow>
         (case open_wb (joinpath (upload_dir_of session) (file_id @ ''_'' @ fileName session))
                 (files s) ds of
            Inl e \<Rightarrow>
              (Inl (HTTPException 500 (Failed_to_complete_upload e)),
               \<lparr>upload_sessions = (upload_sessions s)(upload_id := None),
                files = (\<lambda>p. if p \<in> Chunk_file upload_id ` {0..<totalChunks session} then None
                             else files s p),
                dirs = ds\<rparr>)
          | Inr fs0 \<Rightarrow>
              if (\<Sum>k\<leftarrow>range_list (totalChunks session). int (length (payload k))) \<noteq>
                   totalSize session
              then
                (Inl (HTTPException 500 (Failed_to_complete_upload
                   (HTTPException 400 (File_size_mismatch (totalSize session)
                      (\<Sum>k\<leftarrow>range_list (totalChunks session). int (length (payload k))))))),
                 \<lparr>upload_sessions = (upload_sessions s)(upload_id := None),
                  files = (\<lambda>p. if p = Upload_file (joinpath (upload_dir_of session)
                                             (file_id @ ''_'' @ fileName session))
                           then None
                           else if p \<in> Chunk_file upload_id ` {0..<totalChunks session}
                           then None else files s p),
                  dirs = ds\<rparr>)
              else
                (case relative_to (joinpath (upload_dir_of session)
                                     (file_id @ ''_'' @ fileName session))
                        (parse_path ''static'') of
                   Inl e \<Rightarrow>
                     (Inl (HTTPException 500 (Failed_to_complete_upload e)),
                      \<lparr>upload_sessions = (upload_sessions s)(upload_id := None),
                       files = (\<lambda>p. if p = Upload_file (joinpath (upload_dir_of session)
                                                  (file_id @ ''_'' @ fileName session))
                           then Some (concat (map payload (range_list (totalChunks session))))
                           else if p \<in> Chunk_file upload_id ` {0..<totalChunks session}
                           then None else files s p),
                       dirs = ds\<rparr>)
                 | Inr relative_path \<Rightarrow>
                     (Inr \<lparr>fileId = file_id,
                           cresp_fileName = file_id @ ''_'' @ fileName session,
                           url = ''static/'' @ str_path relative_path,
                           size = totalSize session,
                           cresp_message =
                             Uploaded_successfully_via_chunked_upload (fileName session)\<rparr>,
                      \<lparr>upload_sessions = (upload_sessions s)(upload_id := None),
                       files = (\<lambda>p. if p = Upload_file (joinpath (upload_dir_of session)
                                                  (file_id @ ''_'' @ fileName session))
                           then Some (concat (map payload (range_list (totalChunks session))))
                           else if p \<in> Chunk_file upload_id ` {0..<totalChunks session}
                           then None else files s p),
                       dirs = ds\<rparr>))))"
proof -
  define final where
    "final = joinpath (upload_dir_of session) (file_id @ ''_'' @ fileName session)"
  define C where "C = Chunk_file upload_id ` {0..<totalChunks session}"
  have paths: "set (map snd (chunks session)) = Chunk_file upload_id ` {0..<totalChunks session}"
    using dist keys stored by (rule recorded_paths)
  note cleanup = cleanup_stored [OF sess paths, folded C_def]
  have c0: "cleanup_on_error upload_id s =
      \<lparr>upload_sessions = (upload_sessions s)(upload_id := None),
       files = (\<lambda>p. if p \<in> C then None else files s p), dirs = dirs s\<rparr>"
    using cleanup [where fs = "files s" and ds = "dirs s"] by simp
  have c1: "cleanup_on_error upload_id (s\<lparr>dirs := ds\<rparr>) =
      \<lparr>upload_sessions = (upload_sessions s)(upload_id := None),
       files = (\<lambda>p. if p \<in> C then None else files s p), dirs = ds\<rparr>" for ds
    using cleanup [where fs = "files s" and ds = ds] by simp
  have idem: "(\<lambda>p. if p \<in> C then None
                   else if p = Upload_file final then v
                   else if p \<in> C then None else files s p) =
              (\<lambda>p. if p = Upload_file final then v
                   else if p \<in> C then None else files s p)" for v
    by (rule ext) (auto simp: C_def)
  have lit: "s\<lparr>upload_sessions := U, files := fs, dirs := ds\<rparr> =
             \<lparr>upload_sessions = U, files = fs, dirs = ds\<rparr>" for U fs ds
    by simp
  show ?thesis
    unfolding complete_chunked_upload_def
      complete_try_stored [OF sess req dist keys stored, of file_id]
    unfolding final_def [symmetric] C_def [symmetric] req
    by (simp add: c0 c1 cleanup idem lit split: sum.split)
qed

text \<open>The chunks of distinct indices within range, sent to a session that has none of them.\<close>

lemma run_uploads:
  assumes "upload_sessions s upload_id = Some session"
    and "distinct order"
    and "set order \<subseteq> {0..<totalChunks session}"
    and "set order \<inter> fst ` set (chunks session) = {}"
  shows "upload_sessions (run (uploads upload_id payload order) s) =
           (upload_sessions s)(upload_id \<mapsto>
              session\<lparr>chunks := chunks session @
                 map (\<lambda>i. (i, Chunk_file upload_id i)) order\<rparr>) \<and>
         files (run (uploads upload_id payload order) s) =
           (\<lambda>p. case p of
                  Chunk_file u i \<Rightarrow>
                    if u = upload_id \<and> i \<in> set order then Some (payload i) else files s p
                | Upload_file q \<Rightarrow> files s p) \<and>
         dirs (run (uploads upload_id payload order) s) = dirs s"
  using assms
proof (induction order arbitrary: s session)
  case Nil
  then show ?case
    by (auto simp: uploads_def fun_eq_iff split: path.splits)
next
  case (Cons i order)
  let ?session = "session\<lparr>chunks := chunks session @ [(i, Chunk_file upload_id i)]\<rparr>"
  let ?s = "s\<lparr>upload_sessions := (upload_sessions s)(upload_id \<mapsto> ?session),
              files := (files s)(Chunk_file upload_id i \<mapsto> payload i)\<rparr>"
  have i: "0 \<le> i" "i < totalChunks session" "i \<notin> fst ` set (chunks session)"
    using Cons.prems(3,4) by auto
  have first: "step (Upload upload_id i (payload i)) s = ?s"
    by (simp add: upload_chunk_first_time [OF Cons.prems(1) i] update_fresh [OF i(3)])
  have 1: "upload_sessions ?s upload_id = Some ?session" by simp
  have 2: "distinct order" using Cons.prems(2) by simp
  have 3: "set order \<subseteq> {0..<totalChunks ?session}" using Cons.prems(3) by simp
  have 4: "set order \<inter> fst ` set (chunks ?session) = {}"
    using Cons.prems(2,4) by auto
  have run: "run (uploads upload_id payload (i # order)) s =
             run (uploads upload_id payload order) ?s"
    using first by (simp add: uploads_def)
  show ?case
    unfolding run using Cons.IH [OF 1 2 3 4]
    by (auto simp: fun_eq_iff split: path.splits)
qed

lemma upload_dir_of_chunks [simp]:
  "upload_dir_of (session\<lparr>chunks := cs\<rparr>) = upload_dir_of session"
  by (simp add: upload_dir_of_def)

lemma map_of_recorded:
  assumes "k \<in> set order"
  shows "map_of (map (\<lambda>i. (i, Chunk_file upload_id i)) order) k = Some (Chunk_file upload_id k)"
  using assms by (induction order) auto

text \<open>
  The state after the chunks of all indices have come in, in whatever order, is one in
  which they are stored; it depends on the order in the order of the entries only.
\<close>

lemma uploads_stored:
  assumes sess: "upload_sessions s upload_id = Some session"
    and fresh: "chunks session = []"
    and dist: "distinct order"
    and every: "set order = {0..<totalChunks session}"
    and s1: "s1 = run (uploads upload_id payload order) s"
    and session1: "session1 = session\<lparr>chunks := map (\<lambda>i. (i, Chunk_file upload_id i)) order\<rparr>"
  shows "upload_sessions s1 = (upload_sessions s)(upload_id \<mapsto> session1)"
    and "files s1 =
           (\<lambda>p. case p of
                  Chunk_file u i \<Rightarrow>
                    if u = upload_id \<and> i \<in> {0..<totalChunks session}
                    then Some (payload i) else files s p
                | Upload_file q \<Rightarrow> files s p)"
    and "dirs s1 = dirs s"
    and "distinct (map fst (chunks session1))"
    and "fst ` set (chunks session1) = {0..<totalChunks session1}"
    and "\<forall>k \<in> {0..<totalChunks session1}.
           map_of (chunks session1) k = Some (Chunk_file upload_id k) \<and>
           files s1 (Chunk_file upload_id k) = Some (payload k)"
proof -
  have "set order \<subseteq> {0..<totalChunks session}"
    and "set order \<inter> fst ` set (chunks session) = {}"
    using every fresh by simp_all
  from run_uploads [OF sess dist this, of payload]
  have raw: "upload_sessions s1 = (upload_sessions s)(upload_id \<mapsto> session1)"
    "files s1 =
           (\<lambda>p. case p of
                  Chunk_file u i \<Rightarrow>
                    if u = upload_id \<and> i \<in> set order
                    then Some (payload i) else files s p
                | Upload_file q \<Rightarrow> files s p)"
    "dirs s1 = dirs s"
    by (simp_all add: s1 session1 fresh)
  show sessions1: "upload_sessions s1 = (upload_sessions s)(upload_id \<mapsto> session1)"
    and "dirs s1 = dirs s"
    by (fact raw)+
  show files1: "files s1 =
           (\<lambda>p. case p of
                  Chunk_file u i \<Rightarrow>
                    if u = upload_id \<and> i \<in> {0..<totalChunks session}
                    then Some (payload i) else files s p
                | Upload_file q \<Rightarrow> files s p)"
    unfolding every [symmetric] by (fact raw)
  have fst_order: "map fst (map (\<lambda>i. (i, Chunk_file upload_id i)) order) = order"
    by (induction order) simp_all
  have chunks1: "map fst (chunks session1) = order"
    using fst_order by (simp add: session1)
  show "distinct (map fst (chunks session1))"
    using dist by (simp only: chunks1)
  have "set (map fst (chunks session1)) = {0..<totalChunks session1}"
    using every by (simp only: chunks1) (simp add: session1)
  then show "fst ` set (chunks session1) = {0..<totalChunks session1}"
    by simp
  show "\<forall>k \<in> {0..<totalChunks session1}.
           map_of (chunks session1) k = Some (Chunk_file upload_id k) \<and>
           files s1 (Chunk_file upload_id k) = Some (payload k)"
    using every by (simp add: session1 files1 map_of_recorded)
qed

lemma complete_uploads_any_order:
  assumes sess: "upload_sessions s upload_id = Some session"
    and fresh: "chunks session = []"
    and req: "creq_uploadId request = upload_id"
    and dist1: "distinct order1" and all1: "set order1 = {0..<totalChunks session}"
    and dist2: "distinct order2" and all2: "set order2 = {0..<totalChunks session}"
  shows "complete_chunked_upload request file_id (run (uploads upload_id payload order1) s) =
         complete_chunked_upload request file_id (run (uploads upload_id payload order2) s)"
proof -
  define s1 where "s1 = run (uploads upload_id payload order1) s"
  define s2 where "s2 = run (uploads upload_id payload order2) s"
  define session1 where
    "session1 = session\<lparr>chunks := map (\<lambda>i. (i, Chunk_file upload_id i)) order1\<rparr>"
  define session2 where
    "session2 = session\<lparr>chunks := map (\<lambda>i. (i, Chunk_file upload_id i)) order2\<rparr>"
  note u1 = uploads_stored [OF sess fresh dist1 all1 s1_def session1_def]
  note u2 = uploads_stored [OF sess fresh dist2 all2 s2_def session2_def]
  have sess1: "upload_sessions s1 upload_id = Some session1" by (simp add: u1(1))
  have sess2: "upload_sessions s2 upload_id = Some session2" by (simp add: u2(1))
  have same: "files s2 = files s1" "dirs s2 = dirs s1"
    "(upload_sessions s2)(upload_id := None) = (upload_sessions s1)(upload_id := None)"
    by (simp_all add: u1 u2)
  have fields: "totalChunks session2 = totalChunks session1"
    "totalSize session2 = totalSize session1" "fileName session2 = fileName session1"
    "upload_dir_of session2 = upload_dir_of session1"
    by (simp_all add: session1_def session2_def)
  show ?thesis
    unfolding s1_def [symmetric] s2_def [symmetric]
      complete_stored [OF sess1 req u1(4,5,6), of file_id]
      complete_stored [OF sess2 req u2(4,5,6), of file_id]
      same fields ..
qed

lemma complete_stored_response:
  assumes sess: "upload_sessions s upload_id = Some session"
    and req: "creq_uploadId request = upload_id"
    and dist: "distinct (map fst (chunks session))"
    and keys: "fst ` set (chunks session) = {0..<totalChunks session}"
    and stored: "\<forall>k \<in> {0..<totalChunks session}.
                   map_of (chunks session) k = Some (Chunk_file upload_id k) \<and>
                   files s (Chunk_file upload_id k) = Some (payload k)"
    and resp: "fst (complete_chunked_upload request file_id s) = Inr r"
  shows "files (snd (complete_chunked_upload request file_id s))
           (Upload_file (joinpath (upload_dir_of session) (file_id @ ''_'' @ fileName session))) =
           Some (concat (map payload (range_list (totalChunks session))))"
  using resp
  unfolding complete_stored [OF sess req dist keys stored, of file_id]
  by (auto split: sum.splits if_splits)

lemma complete_missing:
  assumes sess: "upload_sessions s upload_id = Some session"
    and req: "creq_uploadId request = upload_id"
    and missing: "fst ` set (chunks session) \<noteq> {0..<totalChunks session}"
  shows "complete_chunked_upload request file_id s =
    (Inl (HTTPException 500 (Failed_to_complete_upload (HTTPException 400 (Missing_chunks
       ({0..<totalChunks session} - fst ` set (chunks session)))))),
     s\<lparr>upload_sessions := (upload_sessions s)(upload_id := None),
       files := unlink_all (map snd (chunks session)) (files s)\<rparr>)"
  using missing
  by (simp add: complete_chunked_upload_def complete_try_def Let_def req sess
        set_range_list cleanup_on_error_def)

text \<open>
  C1, as the code has it. When the indices that a session has recorded are a proper part
  of \<open>[0, totalChunks)\<close>, \<open>complete_chunked_upload\<close> fails with the handler's 500 around
  the 400 "Missing chunks", which carries the missing indices, at least one; the handler
  has then unlinked every chunk file that the session recorded, leaving the other files
  and the directories alone, and has removed the session.
\<close>

theorem complete_incomplete_upload:
  assumes "upload_sessions s upload_id = Some session"
    and "creq_uploadId request = upload_id"
    and "fst ` set (chunks session) \<subset> {0..<totalChunks session}"
  shows "fst (complete_chunked_upload request file_id s) =
           Inl (HTTPException 500 (Failed_to_complete_upload (HTTPException 400
             (Missing_chunks ({0..<totalChunks session} - fst ` set (chunks session)))))) \<and>
         {0..<totalChunks session} - fst ` set (chunks session) \<noteq> {} \<and>
         upload_sessions (snd (complete_chunked_upload request file_id s)) upload_id = None \<and>
         files (snd (complete_chunked_upload request file_id s)) =
           (\<lambda>p. if p \<in> snd ` set (chunks session) then None else files s p) \<and>
         dirs (snd (complete_chunked_upload request file_id s)) = dirs s"
proof -
  have "fst ` set (chunks session) \<noteq> {0..<totalChunks session}"
    using assms(3) by auto
  note result = complete_missing [OF assms(1,2) this]
  have "unlink_all (map snd (chunks session)) (files s) =
          (\<lambda>p. if p \<in> snd ` set (chunks session) then None else files s p)"
    by (rule ext) (simp add: unlink_all_apply)
  moreover have "{0..<totalChunks session} - fst ` set (chunks session) \<noteq> {}"
    using assms(3) by auto
  ultimately show ?thesis
    unfolding result by simp
qed

theorem complete_incomplete_upload_witness:
  "upload_sessions (run [Init a_pdf None None ''u1'' 0 0, Upload ''u1'' 0 ''foo''] initial_state)
     ''u1'' = Some (a_pdf_session [(0, Chunk_file ''u1'' 0)]) \<and>
   fst ` set (chunks (a_pdf_session [(0, Chunk_file ''u1'' 0)])) \<subset>
     {0..<totalChunks (a_pdf_session [(0, Chunk_file ''u1'' 0)])} \<and>
   fst (complete_chunked_upload complete_u1 ''f1''
     (run [Init a_pdf None None ''u1'' 0 0, Upload ''u1'' 0 ''foo''] initial_state)) =
     Inl (HTTPException 500 (Failed_to_complete_upload (HTTPException 400
       (Missing_chunks {1})))) \<and>
   upload_sessions (snd (complete_chunked_upload complete_u1 ''f1''
     (run [Init a_pdf None None ''u1'' 0 0, Upload ''u1'' 0 ''foo''] initial_state)))
     ''u1'' = None"
proof -
  let ?s = "run [Init a_pdf None None ''u1'' 0 0, Upload ''u1'' 0 ''foo''] initial_state"
  let ?session = "a_pdf_session [(0, Chunk_file ''u1'' 0)]"
  have a: "upload_sessions ?s ''u1'' = Some ?session"
    by (simp add: endpoint_defs)
  have b: "creq_uploadId complete_u1 = ''u1''" by simp
  have "(1::int) \<in> {0..<2}" and "(1::int) \<notin> {0}" by simp_all
  then have "{0::int} \<noteq> {0..<2}" by blast
  then have c: "fst ` set (chunks ?session) \<subset> {0..<totalChunks ?session}"
    by (simp add: psubset_eq)
  have d: "{0..<totalChunks ?session} - fst ` set (chunks ?session) = {1}"
    by auto
  from complete_incomplete_upload [OF a b c, of "''f1''"] a c show ?thesis
    unfolding d by blast
qed

text \<open>
  With chunk 0 of 2 received, completing removes the session that was there and the file
  of chunk 0.
\<close>

theorem complete_incomplete_upload_counterexample:
  "upload_sessions (run [Init a_pdf None None ''u1'' 0 0, Upload ''u1'' 0 ''foo''] initial_state)
     ''u1'' = Some (a_pdf_session [(0, Chunk_file ''u1'' 0)]) \<and>
   files (run [Init a_pdf None None ''u1'' 0 0, Upload ''u1'' 0 ''foo''] initial_state)
     (Chunk_file ''u1'' 0) = Some ''foo'' \<and>
   fst (complete_chunked_upload complete_u1 ''f1''
     (run [Init a_pdf None None ''u1'' 0 0, Upload ''u1'' 0 ''foo''] initial_state)) =
     Inl (HTTPException 500 (Failed_to_complete_upload (HTTPException 400
       (Missing_chunks {1})))) \<and>
   upload_sessions (snd (complete_chunked_upload complete_u1 ''f1''
     (run [Init a_pdf None None ''u1'' 0 0, Upload ''u1'' 0 ''foo''] initial_state)))
     ''u1'' = None \<and>
   files (snd (complete_chunked_upload complete_u1 ''f1''
     (run [Init a_pdf None None ''u1'' 0 0, Upload ''u1'' 0 ''foo''] initial_state)))
     (Chunk_file ''u1'' 0) = None"
proof -
  let ?s = "run [Init a_pdf None None ''u1'' 0 0, Upload ''u1'' 0 ''foo''] initial_state"
  let ?session = "a_pdf_session [(0, Chunk_file ''u1'' 0)]"
  have a: "upload_sessions ?s ''u1'' = Some ?session"
    by (simp add: endpoint_defs)
  have b: "files ?s (Chunk_file ''u1'' 0) = Some ''foo''"
    by (simp add: endpoint_defs)
  have "(1::int) \<in> {0..<2}" and "(1::int) \<notin> {0}" by simp_all
  then have "{0::int} \<noteq> {0..<2}" by blast
  then have c: "fst ` set (chunks ?session) \<noteq> {0..<totalChunks ?session}" by simp
  have d: "{0..<totalChunks ?session} - fst ` set (chunks ?session) = {1}"
    by auto
  have "complete_chunked_upload complete_u1 ''f1'' ?s =
    (Inl (HTTPException 500 (Failed_to_complete_upload (HTTPException 400 (Missing_chunks {1})))),
     ?s\<lparr>upload_sessions := (upload_sessions ?s)(''u1'' := None),
        files := unlink_all (map snd (chunks ?session)) (files ?s)\<rparr>)"
    using complete_missing [OF a _ c, of complete_u1 "''f1''"] unfolding d by simp
  then show ?thesis using a b by simp
qed




text \<open>
  The same upload into the project \<open>/srv/p\<close>: the project replaces
  \<open>static/uploads\<close>, the final file is written, and its path relative to \<open>static\<close>
  is asked for in vain; the handler removes the session.
\<close>

lemma absolute_project_example:
  "upload_sessions
     (run [Init a_pdf (Some ''/srv/p'') None ''u1'' 0 0, Upload ''u1'' 0 ''foo'',
           Upload ''u1'' 1 ''bar''] initial_state) ''u1'' =
     Some (srv_session [(0, Chunk_file ''u1'' 0), (1, Chunk_file ''u1'' 1)]) \<and>
   fst (complete_chunked_upload complete_u1 ''f1''
     (run [Init a_pdf (Some ''/srv/p'') None ''u1'' 0 0, Upload ''u1'' 0 ''foo'',
           Upload ''u1'' 1 ''bar''] initial_state)) =
     Inl (HTTPException 500 (Failed_to_complete_upload ValueError)) \<and>
   upload_sessions (snd (complete_chunked_upload complete_u1 ''f1''
     (run [Init a_pdf (Some ''/srv/p'') None ''u1'' 0 0, Upload ''u1'' 0 ''foo'',
           Upload ''u1'' 1 ''bar''] initial_state))) ''u1'' = None"
proof -
  define s where "s = run [Init a_pdf (Some ''/srv/p'') None ''u1'' 0 0,
                 Upload ''u1'' 0 ''foo'', Upload ''u1'' 1 ''bar''] initial_state"
  define session where
    "session = srv_session [(0, Chunk_file ''u1'' 0), (1, Chunk_file ''u1'' 1)]"
  define final where
    "final = joinpath (upload_dir_of session) (''f1'' @ ''_'' @ fileName session)"
  define ds where "ds = dirs s \<union> set (ancestry (upload_dir_of session))"
  have fields: "totalChunks session = 2" "totalSize session = 6"
    "fileName session = ''a.pdf''" "upload_dir_of session = PurePath True [''srv'', ''p'']"
    "chunks session = [(0, Chunk_file ''u1'' 0), (1, Chunk_file ''u1'' 1)]"
    by (simp_all add: session_def path_defs)
  have range: "{0..<(2::int)} = {0, 1}" by auto
  have a: "upload_sessions s ''u1'' = Some session"
    by (simp add: s_def session_def endpoint_defs)
  have files0: "files s (Upload_file q) = None" for q
    by (simp add: s_def endpoint_defs)
  have dirs0: "dirs s = {PurePath False [''temp_chunks'']}"
    by (simp add: s_def endpoint_defs)
  have b: "creq_uploadId complete_u1 = ''u1''" by simp
  have c: "distinct (map fst (chunks session))" by (simp add: fields)
  have d: "fst ` set (chunks session) = {0..<totalChunks session}"
    unfolding fields range by simp
  have e: "\<forall>k \<in> {0..<totalChunks session}.
             map_of (chunks session) k = Some (Chunk_file ''u1'' k) \<and>
             files s (Chunk_file ''u1'' k) = Some (foo_bar k)"
    unfolding fields range by (simp add: s_def endpoint_defs)
  have sum: "(\<Sum>k\<leftarrow>range_list (totalChunks session). int (length (foo_bar k))) =
               totalSize session"
    unfolding fields by (simp add: range_list_def upto.simps)
  have mk: "mkdir_parents (upload_dir_of session) (files s) (dirs s) = Inr ds"
    unfolding ds_def fields by (simp add: files0 dirs0 path_defs)
  have op: "open_wb final (files s) ds = Inr ((files s)(Upload_file final \<mapsto> []))"
    unfolding ds_def final_def fields by (simp add: files0 dirs0 path_defs)
  have rel: "relative_to final (parse_path ''static'') = Inl ValueError"
    unfolding final_def fields by (simp add: path_defs)
  have "fst (complete_chunked_upload complete_u1 ''f1'' s) =
          Inl (HTTPException 500 (Failed_to_complete_upload ValueError))"
    and "upload_sessions (snd (complete_chunked_upload complete_u1 ''f1'' s)) ''u1'' = None"
    unfolding complete_stored [OF a b c d e, of "''f1''"]
    unfolding final_def [symmetric]
    unfolding mk sum.case op rel
    using sum by simp_all
  with a show ?thesis unfolding s_def session_def by blast
qed

text \<open>
  After the upload \<open>u1\<close> has been completed into \<open>static/uploads/temp/f1_a.pdf\<close>,
  an upload into the project \<open>temp/f1_a.pdf\<close> finds that file where its directory
  should be: the directory cannot be made, and the handler removes the session.
\<close>

lemma file_in_the_way_example:
  "upload_sessions
     (run [Init a_pdf None None ''u1'' 0 0, Upload ''u1'' 0 ''foo'', Upload ''u1'' 1 ''bar'',
           Complete complete_u1 ''f1'',
           Init a_pdf (Some ''temp/f1_a.pdf'') None ''u2'' 0 0, Upload ''u2'' 0 ''foo'',
           Upload ''u2'' 1 ''bar''] initial_state) ''u2'' =
     Some (in_the_way_session [(0, Chunk_file ''u2'' 0), (1, Chunk_file ''u2'' 1)]) \<and>
   fst (complete_chunked_upload complete_u2 ''f2''
     (run [Init a_pdf None None ''u1'' 0 0, Upload ''u1'' 0 ''foo'', Upload ''u1'' 1 ''bar'',
           Complete complete_u1 ''f1'',
           Init a_pdf (Some ''temp/f1_a.pdf'') None ''u2'' 0 0, Upload ''u2'' 0 ''foo'',
           Upload ''u2'' 1 ''bar''] initial_state)) =
     Inl (HTTPException 500 (Failed_to_complete_upload (FileExistsError
       (PurePath False [''static'', ''uploads'', ''temp'', ''f1_a.pdf''])))) \<and>
   upload_sessions (snd (complete_chunked_upload complete_u2 ''f2''
     (run [Init a_pdf None None ''u1'' 0 0, Upload ''u1'' 0 ''foo'', Upload ''u1'' 1 ''bar'',
           Complete complete_u1 ''f1'',
           Init a_pdf (Some ''temp/f1_a.pdf'') None ''u2'' 0 0, Upload ''u2'' 0 ''foo'',
           Upload ''u2'' 1 ''bar''] initial_state))) ''u2'' = None"
proof -
  define s3 where "s3 = run [Init a_pdf None None ''u1'' 0 0, Upload ''u1'' 0 ''foo'',
                 Upload ''u1'' 1 ''bar''] initial_state"
  define s4 where "s4 = snd (complete_chunked_upload complete_u1 ''f1'' s3)"
  define t where "t = run [Init a_pdf (Some ''temp/f1_a.pdf'') None ''u2'' 0 0,
                 Upload ''u2'' 0 ''foo'', Upload ''u2'' 1 ''bar''] s4"
  define f1 where "f1 = PurePath False [''static'', ''uploads'', ''temp'', ''f1_a.pdf'']"
  define session where
    "session = a_pdf_session [(0, Chunk_file ''u1'' 0), (1, Chunk_file ''u1'' 1)]"
  define session2 where
    "session2 = in_the_way_session [(0, Chunk_file ''u2'' 0), (1, Chunk_file ''u2'' 1)]"
  have whole: "run [Init a_pdf None None ''u1'' 0 0, Upload ''u1'' 0 ''foo'',
           Upload ''u1'' 1 ''bar'', Complete complete_u1 ''f1'',
           Init a_pdf (Some ''temp/f1_a.pdf'') None ''u2'' 0 0, Upload ''u2'' 0 ''foo'',
           Upload ''u2'' 1 ''bar''] initial_state = t"
    by (simp add: t_def s4_def s3_def)
  have range: "{0..<(2::int)} = {0, 1}" by auto
  have b: "creq_uploadId complete_u1 = ''u1''" by simp
  have b2: "creq_uploadId complete_u2 = ''u2''" by simp
  have fields: "totalChunks session = 2" "totalSize session = 6"
    "fileName session = ''a.pdf''" "upload_dir_of session = temp_dir"
    "chunks session = [(0, Chunk_file ''u1'' 0), (1, Chunk_file ''u1'' 1)]"
    by (simp_all add: session_def path_defs)
  have a: "upload_sessions s3 ''u1'' = Some session"
    by (simp add: s3_def session_def endpoint_defs)
  have sessions3: "(upload_sessions s3)(''u1'' := None) = Map.empty"
    by (rule ext) (simp add: s3_def endpoint_defs)
  have files3: "files s3 (Upload_file q) = None" for q
    by (simp add: s3_def endpoint_defs)
  have chunks3: "files s3 (Chunk_file u k) =
      (if u = ''u1'' \<and> k \<in> {0, 1} then Some (foo_bar k) else None)" for u k
    by (simp add: s3_def endpoint_defs)
  have dirs3: "dirs s3 = {PurePath False [''temp_chunks'']}"
    by (simp add: s3_def endpoint_defs)
  have c: "distinct (map fst (chunks session))" by (simp add: fields)
  have d: "fst ` set (chunks session) = {0..<totalChunks session}"
    unfolding fields range by simp
  have e: "\<forall>k \<in> {0..<totalChunks session}.
             map_of (chunks session) k = Some (Chunk_file ''u1'' k) \<and>
             files s3 (Chunk_file ''u1'' k) = Some (foo_bar k)"
    unfolding fields range by (simp add: chunks3)
  have sum: "(\<Sum>k\<leftarrow>range_list (totalChunks session). int (length (foo_bar k))) =
               totalSize session"
    unfolding fields by (simp add: range_list_def upto.simps)
  have final: "joinpath (upload_dir_of session) (''f1'' @ ''_'' @ fileName session) = f1"
    unfolding fields f1_def by (simp add: path_defs)
  have mk: "mkdir_parents (upload_dir_of session) (files s3) (dirs s3) =
              Inr (dirs s3 \<union> set (ancestry temp_dir))"
    unfolding fields by (simp add: files3 dirs3 path_defs)
  have op: "open_wb f1 (files s3) (dirs s3 \<union> set (ancestry temp_dir)) =
              Inr ((files s3)(Upload_file f1 \<mapsto> []))"
    unfolding f1_def by (simp add: files3 dirs3 path_defs)
  have rel: "relative_to f1 (parse_path ''static'') =
               Inr (PurePath False [''uploads'', ''temp'', ''f1_a.pdf''])"
    unfolding f1_def by (simp add: path_defs)
  have content: "concat (map foo_bar (range_list (totalChunks session))) = ''foobar''"
    unfolding fields by (simp add: range_list_def upto.simps)
  have s4: "s4 =
      \<lparr>upload_sessions = Map.empty,
       files = (\<lambda>p. if p = Upload_file f1 then Some ''foobar'' else None),
       dirs = dirs s3 \<union> set (ancestry temp_dir)\<rparr>"
  proof -
    have "(\<lambda>p. if p = Upload_file f1 then Some ''foobar''
               else if p \<in> Chunk_file ''u1'' ` {0..<totalChunks session} then None
               else files s3 p) =
          (\<lambda>p. if p = Upload_file f1 then Some ''foobar'' else None)"
    proof (rule ext)
      fix p
      show "(if p = Upload_file f1 then Some ''foobar''
               else if p \<in> Chunk_file ''u1'' ` {0..<totalChunks session} then None
               else files s3 p) =
            (if p = Upload_file f1 then Some ''foobar'' else None)"
        unfolding fields range
        by (cases p) (auto simp: files3 chunks3)
    qed
    then show ?thesis
      unfolding s4_def complete_stored [OF a b c d e, of "''f1''"]
      unfolding final
      unfolding mk sum.case op rel content sessions3
      using sum by simp
  qed
  have sessions4: "upload_sessions s4 = Map.empty"
    and files4: "files s4 = (\<lambda>p. if p = Upload_file f1 then Some ''foobar'' else None)"
    and dirs4: "dirs s4 = dirs s3 \<union> set (ancestry temp_dir)"
    by (simp_all add: s4)
  have fields2: "totalChunks session2 = 2" "totalSize session2 = 6"
    "fileName session2 = ''a.pdf''" "upload_dir_of session2 = f1"
    "chunks session2 = [(0, Chunk_file ''u2'' 0), (1, Chunk_file ''u2'' 1)]"
    by (simp_all add: session2_def f1_def path_defs)
  have a2: "upload_sessions t ''u2'' = Some session2"
    by (simp add: t_def session2_def endpoint_defs sessions4)
  have files_t: "files t (Upload_file q) = files s4 (Upload_file q)" for q
    by (simp add: t_def endpoint_defs sessions4)
  have chunks_t: "files t (Chunk_file ''u2'' 0) = Some ''foo''"
    "files t (Chunk_file ''u2'' 1) = Some ''bar''"
    by (simp_all add: t_def endpoint_defs sessions4)
  have dirs_t: "dirs t = dirs s4"
    by (simp add: t_def endpoint_defs sessions4)
  have c2: "distinct (map fst (chunks session2))" by (simp add: fields2)
  have d2: "fst ` set (chunks session2) = {0..<totalChunks session2}"
    unfolding fields2 range by simp
  have e2: "\<forall>k \<in> {0..<totalChunks session2}.
             map_of (chunks session2) k = Some (Chunk_file ''u2'' k) \<and>
             files t (Chunk_file ''u2'' k) = Some (foo_bar k)"
    unfolding fields2 range by (simp add: chunks_t)
  have mk2: "mkdir_parents (upload_dir_of session2) (files t) (dirs t) =
               Inl (FileExistsError f1)"
    unfolding fields2 dirs_t dirs4 dirs3
    by (simp add: f1_def files_t files4 path_defs)
  have "fst (complete_chunked_upload complete_u2 ''f2'' t) =
          Inl (HTTPException 500 (Failed_to_complete_upload (FileExistsError f1)))"
    and "upload_sessions (snd (complete_chunked_upload complete_u2 ''f2'' t)) ''u2'' = None"
    unfolding complete_stored [OF a2 b2 c2 d2 e2, of "''f2''"] mk2
    by simp_all
  with a2 show ?thesis
    unfolding whole session2_def f1_def by blast
qed

text \<open>
  C2, as the code has it. For the same session but with chunk files that do not add up to
  \<open>totalSize\<close> bytes: when the directory for the final file can be made and the final
  file can be opened in it, the final file is unlinked and the call fails with the
  handler's 500 around the 400 "File size mismatch", which carries the expected and the
  actual count; the chunk files are gone, and the handler has removed the session.
\<close>

theorem complete_size_mismatch:
  assumes "upload_sessions s upload_id = Some session"
    and "creq_uploadId request = upload_id"
    and "distinct (map fst (chunks session))"
    and "fst ` set (chunks session) = {0..<totalChunks session}"
    and "\<forall>k \<in> {0..<totalChunks session}.
           map_of (chunks session) k = Some (Chunk_file upload_id k) \<and>
           files s (Chunk_file upload_id k) = Some (payload k)"
    and "(\<Sum>k\<leftarrow>range_list (totalChunks session). int (length (payload k))) \<noteq> totalSize session"
    and "mkdir_parents (upload_dir_of session) (files s) (dirs s) = Inr ds"
    and "open_wb (joinpath (upload_dir_of session) (file_id @ ''_'' @ fileName session))
           (files s) ds = Inr fs0"
  shows "fst (complete_chunked_upload request file_id s) =
           Inl (HTTPException 500 (Failed_to_complete_upload
             (HTTPException 400 (File_size_mismatch (totalSize session)
               (\<Sum>k\<leftarrow>range_list (totalChunks session). int (length (payload k))))))) \<and>
         files (snd (complete_chunked_upload request file_id s))
           (Upload_file (joinpath (upload_dir_of session) (file_id @ ''_'' @ fileName session))) =
           None \<and>
         (\<forall>k \<in> {0..<totalChunks session}.
            files (snd (complete_chunked_upload request file_id s)) (Chunk_file upload_id k) =
              None) \<and>
         upload_sessions (snd (complete_chunked_upload request file_id s)) upload_id = None"
  unfolding complete_stored [OF assms(1-5), of file_id]
  using assms(6-8) by simp

theorem complete_size_mismatch_witness:
  "upload_sessions
     (run [Init a_pdf None None ''u1'' 0 0, Upload ''u1'' 1 ''bar'', Upload ''u1'' 0 ''fo'']
        initial_state) ''u1'' =
     Some (a_pdf_session [(1, Chunk_file ''u1'' 1), (0, Chunk_file ''u1'' 0)]) \<and>
   fst (complete_chunked_upload complete_u1 ''f1''
     (run [Init a_pdf None None ''u1'' 0 0, Upload ''u1'' 1 ''bar'', Upload ''u1'' 0 ''fo'']
        initial_state)) =
     Inl (HTTPException 500 (Failed_to_complete_upload
       (HTTPException 400 (File_size_mismatch 6 5)))) \<and>
   files (snd (complete_chunked_upload complete_u1 ''f1''
     (run [Init a_pdf None None ''u1'' 0 0, Upload ''u1'' 1 ''bar'', Upload ''u1'' 0 ''fo'']
        initial_state)))
     (Upload_file (PurePath False [''static'', ''uploads'', ''temp'', ''f1_a.pdf''])) = None \<and>
   upload_sessions (snd (complete_chunked_upload complete_u1 ''f1''
     (run [Init a_pdf None None ''u1'' 0 0, Upload ''u1'' 1 ''bar'', Upload ''u1'' 0 ''fo'']
        initial_state))) ''u1'' = None"
proof -
  let ?s = "run [Init a_pdf None None ''u1'' 0 0, Upload ''u1'' 1 ''bar'',
                 Upload ''u1'' 0 ''fo''] initial_state"
  let ?session = "a_pdf_session [(1, Chunk_file ''u1'' 1), (0, Chunk_file ''u1'' 0)]"
  let ?final = "joinpath (upload_dir_of ?session) (''f1'' @ ''_'' @ fileName ?session)"
  let ?ds = "dirs ?s \<union> set (ancestry (upload_dir_of ?session))"
  have range: "{0..<totalChunks ?session} = {0, 1}" by auto
  have a: "upload_sessions ?s ''u1'' = Some ?session"
    by (simp add: endpoint_defs)
  have b: "creq_uploadId complete_u1 = ''u1''" by simp
  have c: "distinct (map fst (chunks ?session))" by simp
  have d: "fst ` set (chunks ?session) = {0..<totalChunks ?session}"
    unfolding range by auto
  have e: "\<forall>k \<in> {0..<totalChunks ?session}.
             map_of (chunks ?session) k = Some (Chunk_file ''u1'' k) \<and>
             files ?s (Chunk_file ''u1'' k) = Some (fo_bar k)"
    unfolding range by (simp add: endpoint_defs)
  have sum: "(\<Sum>k\<leftarrow>range_list (totalChunks ?session). int (length (fo_bar k))) = 5"
    by (simp add: range_list_def upto.simps)
  have f: "(\<Sum>k\<leftarrow>range_list (totalChunks ?session). int (length (fo_bar k))) \<noteq>
             totalSize ?session"
    unfolding sum by simp
  have mk: "mkdir_parents (upload_dir_of ?session) (files ?s) (dirs ?s) = Inr ?ds"
    by (simp add: endpoint_defs path_defs)
  have op: "open_wb ?final (files ?s) ?ds = Inr ((files ?s)(Upload_file ?final \<mapsto> []))"
    by (simp add: endpoint_defs path_defs)
  have e2: "?final = PurePath False [''static'', ''uploads'', ''temp'', ''f1_a.pdf'']"
    by (simp add: path_defs)
  have e4: "totalSize ?session = 6" by simp
  from complete_size_mismatch [OF a b c d e f mk op] a show ?thesis
    unfolding sum e2 unfolding e4 by blast
qed

text \<open>
  Two chunks of a six-byte upload are stored with five bytes between them. Completing
  fails on the size, and the session, which was there before, is no longer there. With
  the same chunks for a file to be called \<open>sub/a.pdf\<close>, completing fails when it opens
  the final file, and the failure holds no byte counts.
\<close>

theorem complete_size_mismatch_counterexample:
  "upload_sessions
     (run [Init a_pdf None None ''u1'' 0 0, Upload ''u1'' 0 ''fo'', Upload ''u1'' 1 ''bar'']
        initial_state) ''u1'' =
     Some (a_pdf_session [(0, Chunk_file ''u1'' 0), (1, Chunk_file ''u1'' 1)]) \<and>
   fst (complete_chunked_upload complete_u1 ''f1''
     (run [Init a_pdf None None ''u1'' 0 0, Upload ''u1'' 0 ''fo'', Upload ''u1'' 1 ''bar'']
        initial_state)) =
     Inl (HTTPException 500 (Failed_to_complete_upload
       (HTTPException 400 (File_size_mismatch 6 5)))) \<and>
   upload_sessions (snd (complete_chunked_upload complete_u1 ''f1''
     (run [Init a_pdf None None ''u1'' 0 0, Upload ''u1'' 0 ''fo'', Upload ''u1'' 1 ''bar'']
        initial_state))) ''u1'' = None \<and>
   upload_sessions
     (run [Init sub_a_pdf None None ''u1'' 0 0, Upload ''u1'' 0 ''fo'',
           Upload ''u1'' 1 ''bar''] initial_state) ''u1'' =
     Some (sub_a_pdf_session [(0, Chunk_file ''u1'' 0), (1, Chunk_file ''u1'' 1)]) \<and>
   fst (complete_chunked_upload complete_u1 ''f1''
     (run [Init sub_a_pdf None None ''u1'' 0 0, Upload ''u1'' 0 ''fo'',
           Upload ''u1'' 1 ''bar''] initial_state)) =
     Inl (HTTPException 500 (Failed_to_complete_upload (FileNotFoundError (Upload_file
       (PurePath False [''static'', ''uploads'', ''temp'', ''f1_sub'', ''a.pdf''])))))"
proof -
  let ?s = "run [Init a_pdf None None ''u1'' 0 0, Upload ''u1'' 0 ''fo'',
                 Upload ''u1'' 1 ''bar''] initial_state"
  let ?session = "a_pdf_session [(0, Chunk_file ''u1'' 0), (1, Chunk_file ''u1'' 1)]"
  let ?final = "joinpath (upload_dir_of ?session) (''f1'' @ ''_'' @ fileName ?session)"
  let ?ds = "dirs ?s \<union> set (ancestry (upload_dir_of ?session))"
  let ?t = "run [Init sub_a_pdf None None ''u1'' 0 0, Upload ''u1'' 0 ''fo'',
                 Upload ''u1'' 1 ''bar''] initial_state"
  let ?session' = "sub_a_pdf_session [(0, Chunk_file ''u1'' 0), (1, Chunk_file ''u1'' 1)]"
  let ?final' = "joinpath (upload_dir_of ?session') (''f1'' @ ''_'' @ fileName ?session')"
  let ?ds' = "dirs ?t \<union> set (ancestry (upload_dir_of ?session'))"
  have range: "{0..<totalChunks ?session} = {0, 1}" by auto
  have range': "{0..<totalChunks ?session'} = {0, 1}" by auto
  have b: "creq_uploadId complete_u1 = ''u1''" by simp
  have a: "upload_sessions ?s ''u1'' = Some ?session"
    by (simp add: endpoint_defs)
  have c: "distinct (map fst (chunks ?session))" by simp
  have d: "fst ` set (chunks ?session) = {0..<totalChunks ?session}"
    unfolding range by simp
  have e: "\<forall>k \<in> {0..<totalChunks ?session}.
             map_of (chunks ?session) k = Some (Chunk_file ''u1'' k) \<and>
             files ?s (Chunk_file ''u1'' k) = Some (fo_bar k)"
    unfolding range by (simp add: endpoint_defs)
  have sum: "(\<Sum>k\<leftarrow>range_list (totalChunks ?session). int (length (fo_bar k))) = 5"
    by (simp add: range_list_def upto.simps)
  have e4: "totalSize ?session = 6" by simp
  have mk: "mkdir_parents (upload_dir_of ?session) (files ?s) (dirs ?s) = Inr ?ds"
    by (simp add: endpoint_defs path_defs)
  have op: "open_wb ?final (files ?s) ?ds = Inr ((files ?s)(Upload_file ?final \<mapsto> []))"
    by (simp add: endpoint_defs path_defs)
  have first: "fst (complete_chunked_upload complete_u1 ''f1'' ?s) =
      Inl (HTTPException 500 (Failed_to_complete_upload
        (HTTPException 400 (File_size_mismatch 6 5))))"
    and gone: "upload_sessions (snd (complete_chunked_upload complete_u1 ''f1'' ?s)) ''u1'' =
      None"
    unfolding complete_stored [OF a b c d e, of "''f1''"] mk sum.case op sum e4
    by simp_all
  have a': "upload_sessions ?t ''u1'' = Some ?session'"
    by (simp add: endpoint_defs)
  have c': "distinct (map fst (chunks ?session'))" by simp
  have d': "fst ` set (chunks ?session') = {0..<totalChunks ?session'}"
    unfolding range' by simp
  have e': "\<forall>k \<in> {0..<totalChunks ?session'}.
             map_of (chunks ?session') k = Some (Chunk_file ''u1'' k) \<and>
             files ?t (Chunk_file ''u1'' k) = Some (fo_bar k)"
    unfolding range' by (simp add: endpoint_defs)
  have mk': "mkdir_parents (upload_dir_of ?session') (files ?t) (dirs ?t) = Inr ?ds'"
    by (simp add: endpoint_defs path_defs)
  have op': "open_wb ?final' (files ?t) ?ds' =
      Inl (FileNotFoundError (Upload_file
        (PurePath False [''static'', ''uploads'', ''temp'', ''f1_sub'', ''a.pdf''])))"
    by (simp add: endpoint_defs path_defs)
  have second: "fst (complete_chunked_upload complete_u1 ''f1'' ?t) =
     Inl (HTTPException 500 (Failed_to_complete_upload (FileNotFoundError (Upload_file
       (PurePath False [''static'', ''uploads'', ''temp'', ''f1_sub'', ''a.pdf''])))))"
    unfolding complete_stored [OF a' b c' d' e', of "''f1''"] mk' sum.case op' by simp
  from a first gone a' second show ?thesis by blast
qed

text \<open>
  C5. For a session with no chunk yet, sending the chunks of all indices in one order or
  in another and then completing gives the same outcome and the same state; and when
  completing returns a response, the final file holds the chunks in ascending order of
  their indices.
\<close>

theorem complete_order_independent:
  assumes "upload_sessions s upload_id = Some session"
    and "chunks session = []"
    and "creq_uploadId request = upload_id"
    and "distinct order1" and "set order1 = {0..<totalChunks session}"
    and "distinct order2" and "set order2 = {0..<totalChunks session}"
  shows "complete_chunked_upload request file_id (run (uploads upload_id payload order1) s) =
         complete_chunked_upload request file_id (run (uploads upload_id payload order2) s) \<and>
         (fst (complete_chunked_upload request file_id
                 (run (uploads upload_id payload order1) s)) = Inr r \<longrightarrow>
          files (snd (complete_chunked_upload request file_id
                  (run (uploads upload_id payload order1) s)))
            (Upload_file (joinpath (upload_dir_of session)
               (file_id @ ''_'' @ fileName session))) =
            Some (concat (map payload (range_list (totalChunks session)))))"
proof (intro conjI impI)
  show "complete_chunked_upload request file_id (run (uploads upload_id payload order1) s) =
        complete_chunked_upload request file_id (run (uploads upload_id payload order2) s)"
    using assms by (rule complete_uploads_any_order)
next
  define s1 where "s1 = run (uploads upload_id payload order1) s"
  define session1 where
    "session1 = session\<lparr>chunks := map (\<lambda>i. (i, Chunk_file upload_id i)) order1\<rparr>"
  note u1 = uploads_stored [OF assms(1,2,4,5) s1_def session1_def]
  have sess1: "upload_sessions s1 upload_id = Some session1" by (simp add: u1(1))
  have fields: "totalChunks session1 = totalChunks session"
    "fileName session1 = fileName session" "upload_dir_of session1 = upload_dir_of session"
    by (simp_all add: session1_def)
  assume "fst (complete_chunked_upload request file_id
                 (run (uploads upload_id payload order1) s)) = Inr r"
  then have "fst (complete_chunked_upload request file_id s1) = Inr r"
    by (simp only: s1_def)
  from complete_stored_response [OF sess1 assms(3) u1(4,5,6) this]
  show "files (snd (complete_chunked_upload request file_id
                  (run (uploads upload_id payload order1) s)))
            (Upload_file (joinpath (upload_dir_of session)
               (file_id @ ''_'' @ fileName session))) =
            Some (concat (map payload (range_list (totalChunks session))))"
    unfolding fields s1_def .
qed

theorem complete_order_independent_witness:
  "upload_sessions (run [Init b_bin None None ''u1'' 0 0] initial_state) ''u1'' =
     Some b_bin_session \<and>
   set [2, 0, 1] = {0..<totalChunks b_bin_session} \<and>
   set [0, 1, 2] = {0..<totalChunks b_bin_session} \<and>
   complete_chunked_upload complete_u1 ''f1''
     (run (uploads ''u1'' abc_def_ghi [2, 0, 1])
        (run [Init b_bin None None ''u1'' 0 0] initial_state)) =
   complete_chunked_upload complete_u1 ''f1''
     (run (uploads ''u1'' abc_def_ghi [0, 1, 2])
        (run [Init b_bin None None ''u1'' 0 0] initial_state)) \<and>
   fst (complete_chunked_upload complete_u1 ''f1''
     (run (uploads ''u1'' abc_def_ghi [2, 0, 1])
        (run [Init b_bin None None ''u1'' 0 0] initial_state))) =
     Inr \<lparr>fileId = ''f1'', cresp_fileName = ''f1_b.bin'',
          url = ''static/uploads/temp/f1_b.bin'', size = 9,
          cresp_message = Uploaded_successfully_via_chunked_upload ''b.bin''\<rparr> \<and>
   files (snd (complete_chunked_upload complete_u1 ''f1''
     (run (uploads ''u1'' abc_def_ghi [2, 0, 1])
        (run [Init b_bin None None ''u1'' 0 0] initial_state))))
     (Upload_file (PurePath False [''static'', ''uploads'', ''temp'', ''f1_b.bin''])) =
     Some ''abcdefghi''"
proof -
  define s where "s = run [Init b_bin None None ''u1'' 0 0] initial_state"
  define s1 where "s1 = run (uploads ''u1'' abc_def_ghi [2, 0, 1]) s"
  define session1 where
    "session1 = b_bin_session\<lparr>chunks := map (\<lambda>i. (i, Chunk_file ''u1'' i)) [2, 0, 1]\<rparr>"
  define final where
    "final = joinpath (upload_dir_of session1) (''f1'' @ ''_'' @ fileName session1)"
  define ds where "ds = dirs s1 \<union> set (ancestry (upload_dir_of session1))"
  let ?r = "\<lparr>fileId = ''f1'', cresp_fileName = ''f1_b.bin'',
          url = ''static/uploads/temp/f1_b.bin'', size = 9,
          cresp_message = Uploaded_successfully_via_chunked_upload ''b.bin''\<rparr>"
  have a: "upload_sessions s ''u1'' = Some b_bin_session"
    by (simp add: s_def endpoint_defs)
  have files0: "files s = Map.empty" and dirs0: "dirs s = {PurePath False [''temp_chunks'']}"
    by (simp_all add: s_def endpoint_defs)
  have b: "chunks b_bin_session = []" by simp
  have c: "creq_uploadId complete_u1 = ''u1''" by simp
  have d1: "distinct [2, 0, 1::int]" and d2: "distinct [0, 1, 2::int]" by simp_all
  have e1: "set [2, 0, 1] = {0..<totalChunks b_bin_session}"
    and e2: "set [0, 1, 2] = {0..<totalChunks b_bin_session}" by auto
  note u1 = uploads_stored [OF a b d1 e1 s1_def session1_def]
  have sess1: "upload_sessions s1 ''u1'' = Some session1"
    unfolding u1(1) by simp
  have files1: "files s1 (Upload_file q) = None" for q
    unfolding u1(2) by (simp add: files0)
  have dirs1: "dirs s1 = {PurePath False [''temp_chunks'']}"
    unfolding u1(3) by (rule dirs0)
  have fields: "totalChunks session1 = 3" "totalSize session1 = 9"
    "fileName session1 = ''b.bin''" "upload_dir_of session1 = temp_dir"
    by (simp_all add: session1_def path_defs)
  have sum: "(\<Sum>k\<leftarrow>range_list (totalChunks session1). int (length (abc_def_ghi k))) =
               totalSize session1"
    unfolding fields by (simp add: range_list_def upto.simps)
  have mk: "mkdir_parents (upload_dir_of session1) (files s1) (dirs s1) = Inr ds"
    unfolding ds_def fields by (simp add: files1 dirs1 path_defs)
  have op: "open_wb final (files s1) ds = Inr ((files s1)(Upload_file final \<mapsto> []))"
    unfolding ds_def final_def fields by (simp add: files1 dirs1 path_defs)
  have rel: "relative_to final (parse_path ''static'') =
               Inr (PurePath False [''uploads'', ''temp'', ''f1_b.bin''])"
    unfolding final_def fields by (simp add: path_defs)
  have r: "fst (complete_chunked_upload complete_u1 ''f1'' s1) = Inr ?r"
    unfolding complete_stored [OF sess1 c u1(4,5,6), of "''f1''"]
    unfolding final_def [symmetric]
    unfolding mk sum.case op rel
    using sum by (simp add: fields path_defs)
  have f2: "concat (map abc_def_ghi (range_list (totalChunks b_bin_session))) = ''abcdefghi''"
    by (simp add: range_list_def upto.simps)
  have f3: "joinpath (upload_dir_of b_bin_session) (''f1'' @ ''_'' @ fileName b_bin_session) =
              PurePath False [''static'', ''uploads'', ''temp'', ''f1_b.bin'']"
    by (simp add: path_defs)
  from complete_order_independent [OF a b c d1 e1 d2 e2, of "''f1''" abc_def_ghi ?r]
    r [unfolded s1_def] a e1 e2
  show ?thesis
    unfolding f2 f3 s_def by blast
qed

end
